theory Spec2Isabelle
  imports Complex_Main "HOL-Library.Sublist"
begin

section \<open>Values of the training script\<close>

text \<open>
  \<^verbatim>\<open>training.py\<close> is a top-level script: it reads settings and files, calls the
  deep-learning framework and the experiment tracker, and writes artifacts. The model
  below is the script as a program over a trace of the external calls it makes; what
  those calls return is a parameter (the settings and the world), and which of them
  raise is a second parameter (the faults).
\<close>

datatype pyval =
    PNone
  | PInt int
  | PFloat real
  | PStr string
  | PFormat string "pyval list"
  | PList "pyval list"
  | PDict "(string \<times> pyval) list"

text \<open>
  \<open>PFloat\<close> stands for a Python float; the script never computes with one, it only
  passes them on. \<open>PFormat f args\<close> is the string \<^verbatim>\<open>f % args\<close>, kept unformatted.
\<close>

datatype exn = KeyError string | IndexError | NameError string | External string

text \<open>
  A sample mapping (image path to captions), as the items of the dict that
  \<^verbatim>\<open>json.load\<close> returns, in insertion order.
\<close>

type_synonym samples = "(string \<times> pyval) list"

definition keys :: "samples \<Rightarrow> string list" where
  "keys d = map fst d"

definition vals :: "samples \<Rightarrow> pyval list" where
  "vals d = map snd d"

definition len :: "'a list \<Rightarrow> int" where
  "len xs = int (length xs)"

text \<open>The \<^verbatim>\<open>logs\<close> dict that the framework hands to a callback.\<close>

type_synonym logs = "string \<rightharpoonup> pyval"

definition py_getitem :: "logs \<Rightarrow> string \<Rightarrow> exn + pyval" where
  "py_getitem d k = (case d k of None \<Rightarrow> Inl (KeyError k) | Some v \<Rightarrow> Inr v)"

definition py_get :: "logs \<Rightarrow> string \<Rightarrow> pyval \<Rightarrow> pyval" where
  "py_get d k dflt = (case d k of None \<Rightarrow> dflt | Some v \<Rightarrow> v)"

definition py_index :: "real list \<Rightarrow> nat \<Rightarrow> exn + real" where
  "py_index xs i = (if i < length xs then Inr (xs ! i) else Inl IndexError)"

text \<open>A variable that is assigned on one branch only: reading it unassigned raises.\<close>

definition py_var :: "string \<Rightarrow> 'a option \<Rightarrow> exn + 'a" where
  "py_var name v = (case v of None \<Rightarrow> Inl (NameError name) | Some x \<Rightarrow> Inr x)"

text \<open>
  \<^verbatim>\<open>str.isspace()\<close> and \<^verbatim>\<open>str.strip()\<close>. A character is a code point below 256; the
  white space among these is the ASCII white space, U+0085 and U+00A0.
\<close>

definition isspace :: "char \<Rightarrow> bool" where
  "isspace c = (c \<in> set [CHR 0x20, CHR 0x09, CHR 0x0A, CHR 0x0B, CHR 0x0C, CHR 0x0D,
                          CHR 0x1C, CHR 0x1D, CHR 0x1E, CHR 0x1F, CHR 0x85, CHR 0xA0])"

definition strip :: "string \<Rightarrow> string" where
  "strip s = rev (dropWhile isspace (rev (dropWhile isspace s)))"

subsection \<open>Objects of the framework\<close>

text \<open>
  The objects that the collaborators build are kept as what they were built from:
  the script only hands them on.
\<close>

record tokenizer =
  max_tokens :: int
  output_mode :: string
  output_sequence_length :: int
  standardize :: string
  ngrams :: int
  adapted :: "pyval option"

datatype dataset = Dataset "string list" "pyval list" bool tokenizer

datatype layer =
    CnnModel
  | TransformerEncoderBlock int int int
  | TransformerDecoderBlock int int int int

datatype model = ImageCaptioningModel layer layer layer layer

datatype loss = SparseCategoricalCrossentropy bool string

datatype schedule = CustomSchedule int

datatype optimizer = Adam schedule real real real

datatype callback = EarlyStopping int bool | LambdaCallback

datatype fit_step = BatchEnd int logs | EpochEnd int logs

subsection \<open>External calls\<close>

datatype event =
    OpenRead string
  | FileRead string
  | FileClose string
  | WandbLogin string
  | WandbInit string string
  | Print "pyval list"
  | ListPhysicalDevices string
  | JsonLoad string
  | ReduceDatasetDim samples samples
  | WandbLog "(string \<times> pyval) list"
  | NewTextVectorization tokenizer
  | Adapt tokenizer pyval
  | GetVocabulary tokenizer
  | ValidTestSplit samples
  | MakeDataset dataset
  | GetCnnModel
  | NewEncoder int int int
  | NewDecoder int int int int
  | NewCaptionModel layer layer layer layer
  | NewLoss bool string
  | NewEarlyStopping int bool
  | NewSchedule int
  | NewAdam schedule real real real
  | Compile model optimizer loss "string list"
  | Fit model dataset int dataset "callback list"
  | Evaluate model dataset int
  | OpenWrite string
  | JsonDump pyval string
  | SaveWeights model string
  | RunSave string
  | SaveTokenizer tokenizer string
  | RunFinish

text \<open>The constants that \<^verbatim>\<open>from settings import *\<close> brings in.\<close>

record settings =
  train_data_json_path :: string
  valid_data_json_path :: string
  text_data_json_path :: string
  REDUCE_DATASET :: bool
  MAX_VOCAB_SIZE :: int
  SEQ_LENGTH :: int
  TRAIN_SET_AUG :: bool
  VALID_SET_AUG :: bool
  TEST_SET :: bool
  IMAGE_SIZE :: pyval
  EMBED_DIM :: int
  FF_DIM :: int
  NUM_HEADS :: int
  BATCH_SIZE :: int
  EPOCHS :: int
  SAVE_DIR :: string

text \<open>What the external calls return when they return.\<close>

record world =
  file_text :: "string \<Rightarrow> string"
  tf_version :: string
  gpu_devices :: "string list"
  json_samples :: "string \<Rightarrow> samples"
  json_corpus :: "string \<Rightarrow> pyval"
  reduce_dataset_dim :: "samples \<Rightarrow> samples \<Rightarrow> samples \<times> samples"
  get_vocabulary :: "tokenizer \<Rightarrow> string list"
  valid_test_split :: "samples \<Rightarrow> samples \<times> samples"
  fit_steps :: "dataset \<Rightarrow> int \<Rightarrow> dataset \<Rightarrow> fit_step list"
  fit_history :: "dataset \<Rightarrow> int \<Rightarrow> dataset \<Rightarrow> pyval"
  keras_evaluate :: "dataset \<Rightarrow> int \<Rightarrow> real list"

text \<open>
  The faults say, for the call made at a position of the trace, whether it raises
  and what.
\<close>

type_synonym faults = "nat \<Rightarrow> event \<Rightarrow> exn option"

definition quiet :: faults where
  "quiet = (\<lambda>i ev. None)"

section \<open>Programs\<close>

type_synonym 'a prog = "event list \<Rightarrow> (exn + 'a) \<times> event list"

definition return_prog :: "'a \<Rightarrow> 'a prog" where
  "return_prog x = (\<lambda>tr. (Inr x, tr))"

definition lift_sum :: "exn + 'a \<Rightarrow> 'a prog" where
  "lift_sum r = (\<lambda>tr. (r, tr))"

definition bind_prog :: "'a prog \<Rightarrow> ('a \<Rightarrow> 'b prog) \<Rightarrow> 'b prog" where
  "bind_prog m f = (\<lambda>tr. case m tr of (Inl e, tr') \<Rightarrow> (Inl e, tr') | (Inr x, tr') \<Rightarrow> f x tr')"

text \<open>An external call: recorded, then it raises or returns \<open>v\<close>.\<close>

definition call :: "faults \<Rightarrow> event \<Rightarrow> 'a \<Rightarrow> 'a prog" where
  "call flt ev v = (\<lambda>tr. (case flt (length tr) ev of Some e \<Rightarrow> Inl e | None \<Rightarrow> Inr v, tr @ [ev]))"

text \<open>
  \<^verbatim>\<open>try: m finally: c\<close>: \<open>c\<close> runs however \<open>m\<close> ends, and an exception of \<open>c\<close>
  replaces the one of \<open>m\<close>.
\<close>

definition try_finally :: "'a prog \<Rightarrow> unit prog \<Rightarrow> 'a prog" where
  "try_finally m c = (\<lambda>tr. case m tr of (r, tr') \<Rightarrow>
     (case c tr' of (Inl e, tr'') \<Rightarrow> (Inl e, tr'') | (Inr u, tr'') \<Rightarrow> (r, tr'')))"

text \<open>\<^verbatim>\<open>with open(path) as f: body\<close>: the file is closed on leaving the block.\<close>

definition with_open :: "faults \<Rightarrow> string \<Rightarrow> 'a prog \<Rightarrow> 'a prog" where
  "with_open flt path body =
     bind_prog (call flt (OpenRead path) ())
       (\<lambda>u. try_finally body (call flt (FileClose path) ()))"

section \<open>The logging callback\<close>

definition batch_payload :: "logs \<Rightarrow> exn + (string \<times> pyval) list" where
  "batch_payload lg =
     (case py_getitem lg ''loss'' of Inl e \<Rightarrow> Inl e | Inr l \<Rightarrow>
      (case py_getitem lg ''acc'' of Inl e \<Rightarrow> Inl e | Inr a \<Rightarrow>
         Inr [(''batch_train_loss'', l), (''batch_train_accuracy'', a)]))"

definition epoch_payload :: "logs \<Rightarrow> exn + (string \<times> pyval) list" where
  "epoch_payload lg =
     (case py_getitem lg ''loss'' of Inl e \<Rightarrow> Inl e | Inr l \<Rightarrow>
         Inr [(''epoch_train_loss'', l),
              (''epoch_valid_loss'', py_get lg ''val_loss'' PNone),
              (''epoch_valid_accuracy'', py_get lg ''val_acc'' PNone)])"

definition on_batch_end :: "faults \<Rightarrow> int \<Rightarrow> logs \<Rightarrow> unit prog" where
  "on_batch_end flt batch lg =
     bind_prog (lift_sum (batch_payload lg)) (\<lambda>d. call flt (WandbLog d) ())"

definition on_epoch_end :: "faults \<Rightarrow> int \<Rightarrow> logs \<Rightarrow> unit prog" where
  "on_epoch_end flt epoch lg =
     bind_prog (lift_sum (epoch_payload lg)) (\<lambda>d. call flt (WandbLog d) ())"

text \<open>What the lambda callback sends to the tracker at a step of the fit loop.\<close>

fun step_payload :: "fit_step \<Rightarrow> exn + (string \<times> pyval) list" where
  "step_payload (BatchEnd b lg) = batch_payload lg"
| "step_payload (EpochEnd e lg) = epoch_payload lg"

definition wandb_callback :: callback where
  "wandb_callback = LambdaCallback"

subsection \<open>The fit loop, as the script sees it\<close>

text \<open>
  The framework's \<^verbatim>\<open>fit\<close> goes through its batches and epochs (the steps are the
  world's) and at each step calls the hooks of the installed callbacks, in the order
  of the list. Early stopping acts inside the framework; the lambda callback runs the
  script's two lambdas, and what they raise leaves \<^verbatim>\<open>fit\<close>.
\<close>

fun hook :: "faults \<Rightarrow> callback \<Rightarrow> fit_step \<Rightarrow> unit prog" where
  "hook flt (EarlyStopping p r) s = return_prog ()"
| "hook flt LambdaCallback (BatchEnd b lg) = on_batch_end flt b lg"
| "hook flt LambdaCallback (EpochEnd e lg) = on_epoch_end flt e lg"

fun notify :: "faults \<Rightarrow> callback list \<Rightarrow> fit_step \<Rightarrow> unit prog" where
  "notify flt [] s = return_prog ()"
| "notify flt (c # cs) s = bind_prog (hook flt c s) (\<lambda>u. notify flt cs s)"

fun run_steps :: "faults \<Rightarrow> callback list \<Rightarrow> fit_step list \<Rightarrow> unit prog" where
  "run_steps flt cbs [] = return_prog ()"
| "run_steps flt cbs (s # ss) = bind_prog (notify flt cbs s) (\<lambda>u. run_steps flt cbs ss)"

definition fit ::
  "faults \<Rightarrow> world \<Rightarrow> model \<Rightarrow> dataset \<Rightarrow> int \<Rightarrow> dataset \<Rightarrow> callback list \<Rightarrow> pyval prog" where
  "fit flt w m train epochs valid cbs =
     bind_prog (call flt (Fit m train epochs valid cbs) ()) (\<lambda>u.
     bind_prog (run_steps flt cbs (fit_steps w train epochs valid)) (\<lambda>u.
     return_prog (fit_history w train epochs valid)))"

section \<open>The script\<close>

text \<open>
  The script runs top to bottom. It is given here in the sections that its own comments
  name; each section returns the variables that later sections read.
\<close>

text \<open>Lines 53 to 65: the API key, the tracker's login and run, the two version lines.\<close>

definition login :: "faults \<Rightarrow> world \<Rightarrow> unit prog" where
  "login flt w =
    bind_prog (with_open flt ''apikey.txt''
                 (call flt (FileRead ''apikey.txt'') (strip (file_text w ''apikey.txt'')))) (\<lambda>api_key.
    bind_prog (call flt (WandbLogin api_key) ()) (\<lambda>u.
    bind_prog (call flt (WandbInit ''image-labeling-project'' ''dulcich'') ()) (\<lambda>u.
    bind_prog (call flt (Print [PStr ''tensorflow version: '', PStr (tf_version w)]) ()) (\<lambda>u.
    bind_prog (call flt (ListPhysicalDevices ''GPU'') (gpu_devices w)) (\<lambda>gpus.
    call flt (Print [PStr ''Num GPUs Available: '', PInt (len gpus)]) ())))))"

text \<open>Lines 67 to 82: the three JSON files, the optional reduction, the sample counts.\<close>

definition load_dataset :: "faults \<Rightarrow> settings \<Rightarrow> world \<Rightarrow> (samples \<times> samples \<times> pyval) prog" where
  "load_dataset flt cfg w =
    bind_prog (with_open flt (train_data_json_path cfg)
                 (call flt (JsonLoad (train_data_json_path cfg))
                    (json_samples w (train_data_json_path cfg)))) (\<lambda>train_data0.
    bind_prog (with_open flt (valid_data_json_path cfg)
                 (call flt (JsonLoad (valid_data_json_path cfg))
                    (json_samples w (valid_data_json_path cfg)))) (\<lambda>valid_data0.
    bind_prog (with_open flt (text_data_json_path cfg)
                 (call flt (JsonLoad (text_data_json_path cfg))
                    (json_corpus w (text_data_json_path cfg)))) (\<lambda>text_data.
    bind_prog (if REDUCE_DATASET cfg
               then call flt (ReduceDatasetDim train_data0 valid_data0)
                      (reduce_dataset_dim w train_data0 valid_data0)
               else return_prog (train_data0, valid_data0)) (\<lambda>(train_data, valid_data).
    bind_prog (call flt (Print [PStr ''Number of training samples: '', PInt (len train_data)]) ()) (\<lambda>u.
    bind_prog (call flt (Print [PStr ''Number of validation samples: '', PInt (len valid_data)]) ()) (\<lambda>u.
    bind_prog (call flt (WandbLog [(''Number of training samples'', PInt (len train_data)),
                                   (''Number of validation samples'', PInt (len valid_data))]) ()) (\<lambda>u.
    return_prog (train_data, valid_data, text_data))))))))"

text \<open>Lines 84 to 97: the tokenizer, its adaptation, the vocabulary size.\<close>

definition fit_tokenizer :: "faults \<Rightarrow> settings \<Rightarrow> world \<Rightarrow> pyval \<Rightarrow> (tokenizer \<times> int) prog" where
  "fit_tokenizer flt cfg w text_data =
    (let tokenizer0 = \<lparr>max_tokens = MAX_VOCAB_SIZE cfg, output_mode = ''int'',
                        output_sequence_length = SEQ_LENGTH cfg,
                        standardize = ''custom_standardization'', ngrams = 1,
                        adapted = None\<rparr> in
     bind_prog (call flt (NewTextVectorization tokenizer0) tokenizer0) (\<lambda>tokenizer1.
     bind_prog (call flt (Adapt tokenizer1 text_data) (tokenizer1\<lparr>adapted := Some text_data\<rparr>)) (\<lambda>tokenizer.
     bind_prog (call flt (GetVocabulary tokenizer) (get_vocabulary w tokenizer)) (\<lambda>vocabulary.
     let VOCAB_SIZE = len vocabulary in
     return_prog (tokenizer, VOCAB_SIZE)))))"

text \<open>Lines 100 to 109: the validation/test split and the datasets.\<close>

definition make_datasets ::
  "faults \<Rightarrow> settings \<Rightarrow> world \<Rightarrow> samples \<Rightarrow> samples \<Rightarrow> tokenizer \<Rightarrow>
     (dataset \<times> dataset \<times> dataset option) prog" where
  "make_datasets flt cfg w train_data valid_data1 tokenizer =
    bind_prog (call flt (ValidTestSplit valid_data1) (valid_test_split w valid_data1)) (\<lambda>(valid_data, test_data).
    bind_prog (call flt (Print [PStr ''Number of validation samples after splitting with test set: '',
                                PInt (len valid_data)]) ()) (\<lambda>u.
    bind_prog (call flt (Print [PStr ''Number of test samples: '', PInt (len test_data)]) ()) (\<lambda>u.
    let train_ds = Dataset (keys train_data) (vals train_data) (TRAIN_SET_AUG cfg) tokenizer in
    bind_prog (call flt (MakeDataset train_ds) train_ds) (\<lambda>train_dataset.
    let valid_ds = Dataset (keys valid_data) (vals valid_data) (VALID_SET_AUG cfg) tokenizer in
    bind_prog (call flt (MakeDataset valid_ds) valid_ds) (\<lambda>valid_dataset.
    let test_ds = Dataset (keys test_data) (vals test_data) False tokenizer in
    bind_prog (if TEST_SET cfg then call flt (MakeDataset test_ds) (Some test_ds)
               else return_prog None) (\<lambda>test_dataset.
    return_prog (train_dataset, valid_dataset, test_dataset)))))))"

text \<open>Lines 111 to 138: the model, the loss, early stopping, the optimizer, compile.\<close>

definition define_model :: "faults \<Rightarrow> settings \<Rightarrow> int \<Rightarrow> (model \<times> callback) prog" where
  "define_model flt cfg VOCAB_SIZE =
    bind_prog (call flt GetCnnModel CnnModel) (\<lambda>cnn_model.
    bind_prog (call flt (NewEncoder (EMBED_DIM cfg) (FF_DIM cfg) (NUM_HEADS cfg))
                 (TransformerEncoderBlock (EMBED_DIM cfg) (FF_DIM cfg) (NUM_HEADS cfg))) (\<lambda>encoder.
    bind_prog (call flt (NewEncoder (EMBED_DIM cfg) (FF_DIM cfg) (NUM_HEADS cfg))
                 (TransformerEncoderBlock (EMBED_DIM cfg) (FF_DIM cfg) (NUM_HEADS cfg))) (\<lambda>encoder2.
    bind_prog (call flt (NewDecoder (EMBED_DIM cfg) (FF_DIM cfg) (NUM_HEADS cfg) VOCAB_SIZE)
                 (TransformerDecoderBlock (EMBED_DIM cfg) (FF_DIM cfg) (NUM_HEADS cfg) VOCAB_SIZE)) (\<lambda>decoder.
    bind_prog (call flt (NewCaptionModel cnn_model encoder encoder2 decoder)
                 (ImageCaptioningModel cnn_model encoder encoder2 decoder)) (\<lambda>caption_model.
    bind_prog (call flt (NewLoss True ''none'') (SparseCategoricalCrossentropy True ''none'')) (\<lambda>cross_entropy.
    bind_prog (call flt (NewEarlyStopping 3 True) (EarlyStopping 3 True)) (\<lambda>early_stopping.
    bind_prog (call flt (NewSchedule (EMBED_DIM cfg)) (CustomSchedule (EMBED_DIM cfg))) (\<lambda>lr_scheduler.
    bind_prog (call flt (NewAdam lr_scheduler (9 / 10) (98 / 100) (1 / 10 ^ 9))
                 (Adam lr_scheduler (9 / 10) (98 / 100) (1 / 10 ^ 9))) (\<lambda>optimizer.
    bind_prog (call flt (Compile caption_model optimizer cross_entropy [''accuracy'']) ()) (\<lambda>u.
    return_prog (caption_model, early_stopping)))))))))))"

text \<open>Lines 141 to 163: fit, the definitive metrics, their logging and printing.\<close>

definition fit_and_evaluate ::
  "faults \<Rightarrow> settings \<Rightarrow> world \<Rightarrow> model \<Rightarrow> callback \<Rightarrow> dataset \<Rightarrow> dataset \<Rightarrow>
     dataset option \<Rightarrow> pyval prog" where
  "fit_and_evaluate flt cfg w caption_model early_stopping train_dataset valid_dataset test_dataset =
    bind_prog (fit flt w caption_model train_dataset (EPOCHS cfg) valid_dataset
                 [early_stopping, wandb_callback]) (\<lambda>history.
    bind_prog (call flt (Evaluate caption_model train_dataset (BATCH_SIZE cfg))
                 (keras_evaluate w train_dataset (BATCH_SIZE cfg))) (\<lambda>train_metrics.
    bind_prog (call flt (Evaluate caption_model valid_dataset (BATCH_SIZE cfg))
                 (keras_evaluate w valid_dataset (BATCH_SIZE cfg))) (\<lambda>valid_metrics.
    bind_prog (lift_sum (py_index train_metrics 0)) (\<lambda>train_loss.
    bind_prog (lift_sum (py_index train_metrics 1)) (\<lambda>train_acc.
    bind_prog (lift_sum (py_index valid_metrics 0)) (\<lambda>valid_loss.
    bind_prog (lift_sum (py_index valid_metrics 1)) (\<lambda>valid_acc.
    bind_prog (call flt (WandbLog [(''Train Loss'', PFloat train_loss),
                                   (''Train Accuracy'', PFloat train_acc),
                                   (''Valid Loss'', PFloat valid_loss),
                                   (''Valid Accuracy'', PFloat valid_acc)]) ()) (\<lambda>u.
    bind_prog (if TEST_SET cfg
               then bind_prog (lift_sum (py_var ''test_dataset'' test_dataset)) (\<lambda>test_dataset'.
                    bind_prog (call flt (Evaluate caption_model test_dataset' (BATCH_SIZE cfg))
                                 (keras_evaluate w test_dataset' (BATCH_SIZE cfg))) (\<lambda>test_metrics'.
                    bind_prog (lift_sum (py_index test_metrics' 0)) (\<lambda>test_loss.
                    bind_prog (lift_sum (py_index test_metrics' 1)) (\<lambda>test_acc.
                    bind_prog (call flt (WandbLog [(''Test Loss'', PFloat test_loss),
                                                   (''Test Accuracy'', PFloat test_acc)]) ()) (\<lambda>u.
                    return_prog (Some test_metrics'))))))
               else return_prog None) (\<lambda>test_metrics.
    bind_prog (lift_sum (py_index train_metrics 0)) (\<lambda>train_loss.
    bind_prog (lift_sum (py_index train_metrics 1)) (\<lambda>train_acc.
    bind_prog (call flt (Print [PFormat ''Train Loss = %.4f - Train Accuracy = %.4f''
                                  [PFloat train_loss, PFloat train_acc]]) ()) (\<lambda>u.
    bind_prog (lift_sum (py_index valid_metrics 0)) (\<lambda>valid_loss.
    bind_prog (lift_sum (py_index valid_metrics 1)) (\<lambda>valid_acc.
    bind_prog (call flt (Print [PFormat ''Valid Loss = %.4f - Valid Accuracy = %.4f''
                                  [PFloat valid_loss, PFloat valid_acc]]) ()) (\<lambda>u.
    bind_prog (if TEST_SET cfg
               then bind_prog (lift_sum (py_var ''test_metrics'' test_metrics)) (\<lambda>test_metrics'.
                    bind_prog (lift_sum (py_index test_metrics' 0)) (\<lambda>test_loss.
                    bind_prog (lift_sum (py_index test_metrics' 1)) (\<lambda>test_acc.
                    call flt (Print [PFormat ''Test Loss = %.4f - Test Accuracy = %.4f''
                                       [PFloat test_loss, PFloat test_acc]]) ())))
               else return_prog ()) (\<lambda>u.
    return_prog history))))))))))))))))"

text \<open>Lines 165 to 197: the history, the weights, the configuration, the tokenizer.\<close>

definition save_all ::
  "faults \<Rightarrow> settings \<Rightarrow> pyval \<Rightarrow> model \<Rightarrow> tokenizer \<Rightarrow> int \<Rightarrow> unit prog" where
  "save_all flt cfg history caption_model tokenizer VOCAB_SIZE =
    bind_prog (call flt (OpenWrite (SAVE_DIR cfg @ ''history.json'')) ()) (\<lambda>u.
    bind_prog (call flt (JsonDump history (SAVE_DIR cfg @ ''history.json'')) ()) (\<lambda>u.
    bind_prog (call flt (SaveWeights caption_model
                           (SAVE_DIR cfg @ ''big_model_weights_coco.weights.h5'')) ()) (\<lambda>u.
    bind_prog (call flt (RunSave (SAVE_DIR cfg @ ''big_model_weights_coco.weights.h5'')) ()) (\<lambda>u.
    let config_train = PDict [(''IMAGE_SIZE'', IMAGE_SIZE cfg),
                              (''MAX_VOCAB_SIZE'', PInt (MAX_VOCAB_SIZE cfg)),
                              (''SEQ_LENGTH'', PInt (SEQ_LENGTH cfg)),
                              (''EMBED_DIM'', PInt (EMBED_DIM cfg)),
                              (''NUM_HEADS'', PInt (NUM_HEADS cfg)),
                              (''FF_DIM'', PInt (FF_DIM cfg)),
                              (''BATCH_SIZE'', PInt (BATCH_SIZE cfg)),
                              (''EPOCHS'', PInt (EPOCHS cfg)),
                              (''VOCAB_SIZE'', PInt VOCAB_SIZE)] in
    bind_prog (call flt (OpenWrite (SAVE_DIR cfg @ ''config_train.json'')) ()) (\<lambda>u.
    bind_prog (call flt (JsonDump config_train (SAVE_DIR cfg @ ''config_train.json'')) ()) (\<lambda>u.
    bind_prog (call flt (SaveTokenizer tokenizer (SAVE_DIR cfg)) ()) (\<lambda>u.
    call flt RunFinish ())))))))"

definition training :: "faults \<Rightarrow> settings \<Rightarrow> world \<Rightarrow> unit prog" where
  "training flt cfg w =
    bind_prog (login flt w) (\<lambda>u.
    bind_prog (load_dataset flt cfg w) (\<lambda>(train_data, valid_data, text_data).
    bind_prog (fit_tokenizer flt cfg w text_data) (\<lambda>(tokenizer, VOCAB_SIZE).
    bind_prog (make_datasets flt cfg w train_data valid_data tokenizer)
      (\<lambda>(train_dataset, valid_dataset, test_dataset).
    bind_prog (define_model flt cfg VOCAB_SIZE) (\<lambda>(caption_model, early_stopping).
    bind_prog (fit_and_evaluate flt cfg w caption_model early_stopping
                 train_dataset valid_dataset test_dataset) (\<lambda>history.
    save_all flt cfg history caption_model tokenizer VOCAB_SIZE))))))"

definition outcome :: "faults \<Rightarrow> settings \<Rightarrow> world \<Rightarrow> exn + unit" where
  "outcome flt cfg w = fst (training flt cfg w [])"

definition trace :: "faults \<Rightarrow> settings \<Rightarrow> world \<Rightarrow> event list" where
  "trace flt cfg w = snd (training flt cfg w [])"


section \<open>Reading a trace\<close>

definition is_close :: "event \<Rightarrow> bool" where
  "is_close ev = (case ev of FileClose p \<Rightarrow> True | _ \<Rightarrow> False)"

definition is_adapt :: "event \<Rightarrow> bool" where
  "is_adapt ev = (case ev of Adapt t c \<Rightarrow> True | _ \<Rightarrow> False)"

definition is_split :: "event \<Rightarrow> bool" where
  "is_split ev = (case ev of ValidTestSplit v \<Rightarrow> True | _ \<Rightarrow> False)"

definition is_make_dataset :: "event \<Rightarrow> bool" where
  "is_make_dataset ev = (case ev of MakeDataset d \<Rightarrow> True | _ \<Rightarrow> False)"

definition is_fit :: "event \<Rightarrow> bool" where
  "is_fit ev = (case ev of Fit m a n b cbs \<Rightarrow> True | _ \<Rightarrow> False)"

definition is_evaluate :: "event \<Rightarrow> bool" where
  "is_evaluate ev = (case ev of Evaluate m d b \<Rightarrow> True | _ \<Rightarrow> False)"

text \<open>The calls that write an artifact.\<close>

definition is_persist :: "event \<Rightarrow> bool" where
  "is_persist ev =
     (case ev of OpenWrite p \<Rightarrow> True | JsonDump v p \<Rightarrow> True | SaveWeights m p \<Rightarrow> True
      | RunSave p \<Rightarrow> True | SaveTokenizer t p \<Rightarrow> True | _ \<Rightarrow> False)"

text \<open>The events before the first one that satisfies \<open>P\<close>, and those from it on.\<close>

definition before :: "('a \<Rightarrow> bool) \<Rightarrow> 'a list \<Rightarrow> 'a list" where
  "before P xs = takeWhile (\<lambda>x. \<not> P x) xs"

definition from_first :: "('a \<Rightarrow> bool) \<Rightarrow> 'a list \<Rightarrow> 'a list" where
  "from_first P xs = dropWhile (\<lambda>x. \<not> P x) xs"

text \<open>
  Every \<^verbatim>\<open>print\<close> of the script starts with a literal: a label that values
  follow, or a format string.
\<close>

fun print_label :: "pyval list \<Rightarrow> string" where
  "print_label (PStr s # rest) = s"
| "print_label (PFormat f args # rest) = f"
| "print_label rest = []"

text \<open>
  The text of a printed line is made of the strings among the arguments, the format
  strings and the strings that are formatted into them, and of numbers. A number prints
  as digits, a sign, a point and the letters of \<^verbatim>\<open>e\<close>, \<^verbatim>\<open>inf\<close> and \<^verbatim>\<open>nan\<close>, so a
  metric name that a printed line shows is in one of the strings. The names that a
  tracker call shows are the keys of its dict.
\<close>

fun print_strings :: "pyval list \<Rightarrow> string list" where
  "print_strings [] = []"
| "print_strings (PStr s # rest) = s # print_strings rest"
| "print_strings (PFormat f args # rest) = f # print_strings args @ print_strings rest"
| "print_strings (v # rest) = print_strings rest"

definition test_metric_keys :: "string list" where
  "test_metric_keys = [''Test Loss'', ''Test Accuracy'']"

definition names_test_metric :: "string \<Rightarrow> bool" where
  "names_test_metric s = (\<exists>k\<in>set test_metric_keys. sublist k s)"

definition mentions_test_metric :: "event \<Rightarrow> bool" where
  "mentions_test_metric ev =
     (case ev of
        WandbLog d \<Rightarrow> (\<exists>k\<in>set (map fst d). names_test_metric k)
      | Print args \<Rightarrow> (\<exists>s\<in>set (print_strings args). names_test_metric s)
      | _ \<Rightarrow> False)"

text \<open>The reports of the sample counts: two printed lines and one tracker call.\<close>

definition is_count_report :: "event \<Rightarrow> bool" where
  "is_count_report ev =
     (case ev of
        Print args \<Rightarrow> print_label args = ''Number of training samples: '' \<or>
                      print_label args = ''Number of validation samples: ''
      | WandbLog d \<Rightarrow> map fst d = [''Number of training samples'',
                                    ''Number of validation samples'']
      | _ \<Rightarrow> False)"

definition count_reports :: "event list \<Rightarrow> event list" where
  "count_reports tr = filter is_count_report tr"

text \<open>The three reports as the script makes them, for the two counts.\<close>

definition count_lines :: "int \<Rightarrow> int \<Rightarrow> event list" where
  "count_lines nt nv =
     [Print [PStr ''Number of training samples: '', PInt nt],
      Print [PStr ''Number of validation samples: '', PInt nv],
      WandbLog [(''Number of training samples'', PInt nt),
                (''Number of validation samples'', PInt nv)]]"

definition json_field :: "pyval \<Rightarrow> string \<Rightarrow> pyval option" where
  "json_field v k = (case v of PDict kv \<Rightarrow> map_of kv k | _ \<Rightarrow> None)"

section \<open>The values of the script's variables\<close>

definition loaded_train :: "settings \<Rightarrow> world \<Rightarrow> samples" where
  "loaded_train cfg w = json_samples w (train_data_json_path cfg)"

definition loaded_valid :: "settings \<Rightarrow> world \<Rightarrow> samples" where
  "loaded_valid cfg w = json_samples w (valid_data_json_path cfg)"

definition corpus :: "settings \<Rightarrow> world \<Rightarrow> pyval" where
  "corpus cfg w = json_corpus w (text_data_json_path cfg)"

definition reduced :: "settings \<Rightarrow> world \<Rightarrow> samples \<times> samples" where
  "reduced cfg w =
     (if REDUCE_DATASET cfg then reduce_dataset_dim w (loaded_train cfg w) (loaded_valid cfg w)
      else (loaded_train cfg w, loaded_valid cfg w))"

definition new_tokenizer :: "settings \<Rightarrow> tokenizer" where
  "new_tokenizer cfg =
     \<lparr>max_tokens = MAX_VOCAB_SIZE cfg, output_mode = ''int'',
      output_sequence_length = SEQ_LENGTH cfg,
      standardize = ''custom_standardization'', ngrams = 1, adapted = None\<rparr>"

definition fitted_tokenizer :: "settings \<Rightarrow> world \<Rightarrow> tokenizer" where
  "fitted_tokenizer cfg w = (new_tokenizer cfg)\<lparr>adapted := Some (corpus cfg w)\<rparr>"

definition vocab_size :: "settings \<Rightarrow> world \<Rightarrow> int" where
  "vocab_size cfg w = len (get_vocabulary w (fitted_tokenizer cfg w))"

definition split_result :: "settings \<Rightarrow> world \<Rightarrow> samples \<times> samples" where
  "split_result cfg w = valid_test_split w (snd (reduced cfg w))"

definition train_set :: "settings \<Rightarrow> world \<Rightarrow> dataset" where
  "train_set cfg w =
     Dataset (keys (fst (reduced cfg w))) (vals (fst (reduced cfg w)))
       (TRAIN_SET_AUG cfg) (fitted_tokenizer cfg w)"

definition valid_set :: "settings \<Rightarrow> world \<Rightarrow> dataset" where
  "valid_set cfg w =
     Dataset (keys (fst (split_result cfg w))) (vals (fst (split_result cfg w)))
       (VALID_SET_AUG cfg) (fitted_tokenizer cfg w)"

definition test_set :: "settings \<Rightarrow> world \<Rightarrow> dataset" where
  "test_set cfg w =
     Dataset (keys (snd (split_result cfg w))) (vals (snd (split_result cfg w)))
       False (fitted_tokenizer cfg w)"

definition the_model :: "settings \<Rightarrow> world \<Rightarrow> model" where
  "the_model cfg w =
     ImageCaptioningModel CnnModel
       (TransformerEncoderBlock (EMBED_DIM cfg) (FF_DIM cfg) (NUM_HEADS cfg))
       (TransformerEncoderBlock (EMBED_DIM cfg) (FF_DIM cfg) (NUM_HEADS cfg))
       (TransformerDecoderBlock (EMBED_DIM cfg) (FF_DIM cfg) (NUM_HEADS cfg) (vocab_size cfg w))"

definition config_train :: "settings \<Rightarrow> world \<Rightarrow> pyval" where
  "config_train cfg w =
     PDict [(''IMAGE_SIZE'', IMAGE_SIZE cfg),
            (''MAX_VOCAB_SIZE'', PInt (MAX_VOCAB_SIZE cfg)),
            (''SEQ_LENGTH'', PInt (SEQ_LENGTH cfg)),
            (''EMBED_DIM'', PInt (EMBED_DIM cfg)),
            (''NUM_HEADS'', PInt (NUM_HEADS cfg)),
            (''FF_DIM'', PInt (FF_DIM cfg)),
            (''BATCH_SIZE'', PInt (BATCH_SIZE cfg)),
            (''EPOCHS'', PInt (EPOCHS cfg)),
            (''VOCAB_SIZE'', PInt (vocab_size cfg w))]"

section \<open>The calls of an undisturbed run\<close>

text \<open>
  What the two installed callbacks send during \<^verbatim>\<open>fit\<close>, up to the first step whose
  payload cannot be built, and the exception of that step.
\<close>

fun steps_log :: "fit_step list \<Rightarrow> event list" where
  "steps_log [] = []"
| "steps_log (s # ss) =
     (case step_payload s of Inl e \<Rightarrow> [] | Inr d \<Rightarrow> WandbLog d # steps_log ss)"

fun steps_exn :: "fit_step list \<Rightarrow> exn option" where
  "steps_exn [] = None"
| "steps_exn (s # ss) =
     (case step_payload s of Inl e \<Rightarrow> Some e | Inr d \<Rightarrow> steps_exn ss)"

definition the_steps :: "settings \<Rightarrow> world \<Rightarrow> fit_step list" where
  "the_steps cfg w = fit_steps w (train_set cfg w) (EPOCHS cfg) (valid_set cfg w)"

definition startup_events :: "settings \<Rightarrow> world \<Rightarrow> event list" where
  "startup_events cfg w =
     [OpenRead ''apikey.txt'', FileRead ''apikey.txt'', FileClose ''apikey.txt'',
      WandbLogin (strip (file_text w ''apikey.txt'')),
      WandbInit ''image-labeling-project'' ''dulcich'',
      Print [PStr ''tensorflow version: '', PStr (tf_version w)],
      ListPhysicalDevices ''GPU'',
      Print [PStr ''Num GPUs Available: '', PInt (len (gpu_devices w))]]"

definition loading_events :: "settings \<Rightarrow> world \<Rightarrow> event list" where
  "loading_events cfg w =
     [OpenRead (train_data_json_path cfg), JsonLoad (train_data_json_path cfg),
      FileClose (train_data_json_path cfg),
      OpenRead (valid_data_json_path cfg), JsonLoad (valid_data_json_path cfg),
      FileClose (valid_data_json_path cfg),
      OpenRead (text_data_json_path cfg), JsonLoad (text_data_json_path cfg),
      FileClose (text_data_json_path cfg)]
     @ (if REDUCE_DATASET cfg then [ReduceDatasetDim (loaded_train cfg w) (loaded_valid cfg w)]
        else [])
     @ [Print [PStr ''Number of training samples: '', PInt (len (fst (reduced cfg w)))],
        Print [PStr ''Number of validation samples: '', PInt (len (snd (reduced cfg w)))],
        WandbLog [(''Number of training samples'', PInt (len (fst (reduced cfg w)))),
                  (''Number of validation samples'', PInt (len (snd (reduced cfg w))))]]"

definition tokenizer_events :: "settings \<Rightarrow> world \<Rightarrow> event list" where
  "tokenizer_events cfg w =
     [NewTextVectorization (new_tokenizer cfg),
      Adapt (new_tokenizer cfg) (corpus cfg w),
      GetVocabulary (fitted_tokenizer cfg w),
      ValidTestSplit (snd (reduced cfg w)),
      Print [PStr ''Number of validation samples after splitting with test set: '',
             PInt (len (fst (split_result cfg w)))],
      Print [PStr ''Number of test samples: '', PInt (len (snd (split_result cfg w)))]]"

definition dataset_events :: "settings \<Rightarrow> world \<Rightarrow> event list" where
  "dataset_events cfg w =
     [MakeDataset (train_set cfg w), MakeDataset (valid_set cfg w)]
     @ (if TEST_SET cfg then [MakeDataset (test_set cfg w)] else [])"

definition model_events :: "settings \<Rightarrow> world \<Rightarrow> event list" where
  "model_events cfg w =
     [GetCnnModel,
      NewEncoder (EMBED_DIM cfg) (FF_DIM cfg) (NUM_HEADS cfg),
      NewEncoder (EMBED_DIM cfg) (FF_DIM cfg) (NUM_HEADS cfg),
      NewDecoder (EMBED_DIM cfg) (FF_DIM cfg) (NUM_HEADS cfg) (vocab_size cfg w),
      NewCaptionModel CnnModel
        (TransformerEncoderBlock (EMBED_DIM cfg) (FF_DIM cfg) (NUM_HEADS cfg))
        (TransformerEncoderBlock (EMBED_DIM cfg) (FF_DIM cfg) (NUM_HEADS cfg))
        (TransformerDecoderBlock (EMBED_DIM cfg) (FF_DIM cfg) (NUM_HEADS cfg) (vocab_size cfg w)),
      NewLoss True ''none'',
      NewEarlyStopping 3 True,
      NewSchedule (EMBED_DIM cfg),
      NewAdam (CustomSchedule (EMBED_DIM cfg)) (9 / 10) (98 / 100) (1 / 10 ^ 9),
      Compile (the_model cfg w)
        (Adam (CustomSchedule (EMBED_DIM cfg)) (9 / 10) (98 / 100) (1 / 10 ^ 9))
        (SparseCategoricalCrossentropy True ''none'') [''accuracy'']]"

definition fit_events :: "settings \<Rightarrow> world \<Rightarrow> event list" where
  "fit_events cfg w =
     Fit (the_model cfg w) (train_set cfg w) (EPOCHS cfg) (valid_set cfg w)
       [EarlyStopping 3 True, wandb_callback]
     # steps_log (the_steps cfg w)"

definition evaluation_events :: "settings \<Rightarrow> world \<Rightarrow> event list" where
  "evaluation_events cfg w =
     [Evaluate (the_model cfg w) (train_set cfg w) (BATCH_SIZE cfg),
      Evaluate (the_model cfg w) (valid_set cfg w) (BATCH_SIZE cfg),
      WandbLog [(''Train Loss'', PFloat (keras_evaluate w (train_set cfg w) (BATCH_SIZE cfg) ! 0)),
                (''Train Accuracy'', PFloat (keras_evaluate w (train_set cfg w) (BATCH_SIZE cfg) ! 1)),
                (''Valid Loss'', PFloat (keras_evaluate w (valid_set cfg w) (BATCH_SIZE cfg) ! 0)),
                (''Valid Accuracy'', PFloat (keras_evaluate w (valid_set cfg w) (BATCH_SIZE cfg) ! 1))]]
     @ (if TEST_SET cfg
        then [Evaluate (the_model cfg w) (test_set cfg w) (BATCH_SIZE cfg),
              WandbLog [(''Test Loss'', PFloat (keras_evaluate w (test_set cfg w) (BATCH_SIZE cfg) ! 0)),
                        (''Test Accuracy'', PFloat (keras_evaluate w (test_set cfg w) (BATCH_SIZE cfg) ! 1))]]
        else [])
     @ [Print [PFormat ''Train Loss = %.4f - Train Accuracy = %.4f''
                 [PFloat (keras_evaluate w (train_set cfg w) (BATCH_SIZE cfg) ! 0),
                  PFloat (keras_evaluate w (train_set cfg w) (BATCH_SIZE cfg) ! 1)]],
        Print [PFormat ''Valid Loss = %.4f - Valid Accuracy = %.4f''
                 [PFloat (keras_evaluate w (valid_set cfg w) (BATCH_SIZE cfg) ! 0),
                  PFloat (keras_evaluate w (valid_set cfg w) (BATCH_SIZE cfg) ! 1)]]]
     @ (if TEST_SET cfg
        then [Print [PFormat ''Test Loss = %.4f - Test Accuracy = %.4f''
                       [PFloat (keras_evaluate w (test_set cfg w) (BATCH_SIZE cfg) ! 0),
                        PFloat (keras_evaluate w (test_set cfg w) (BATCH_SIZE cfg) ! 1)]]]
        else [])"

definition persistence_events :: "settings \<Rightarrow> world \<Rightarrow> event list" where
  "persistence_events cfg w =
     [OpenWrite (SAVE_DIR cfg @ ''history.json''),
      JsonDump (fit_history w (train_set cfg w) (EPOCHS cfg) (valid_set cfg w))
        (SAVE_DIR cfg @ ''history.json''),
      SaveWeights (the_model cfg w) (SAVE_DIR cfg @ ''big_model_weights_coco.weights.h5''),
      RunSave (SAVE_DIR cfg @ ''big_model_weights_coco.weights.h5''),
      OpenWrite (SAVE_DIR cfg @ ''config_train.json''),
      JsonDump (config_train cfg w) (SAVE_DIR cfg @ ''config_train.json''),
      SaveTokenizer (fitted_tokenizer cfg w) (SAVE_DIR cfg)]"

definition full_run :: "settings \<Rightarrow> world \<Rightarrow> event list" where
  "full_run cfg w =
     startup_events cfg w @ loading_events cfg w @ tokenizer_events cfg w @
     dataset_events cfg w @ model_events cfg w @ fit_events cfg w @
     evaluation_events cfg w @ persistence_events cfg w @ [RunFinish]"


text \<open>When an undisturbed run reaches its end: no payload fails and every metric list
  that is indexed has its two entries.\<close>

definition run_ok :: "settings \<Rightarrow> world \<Rightarrow> bool" where
  "run_ok cfg w =
     (steps_exn (the_steps cfg w) = None \<and>
      2 \<le> length (keras_evaluate w (train_set cfg w) (BATCH_SIZE cfg)) \<and>
      2 \<le> length (keras_evaluate w (valid_set cfg w) (BATCH_SIZE cfg)) \<and>
      (TEST_SET cfg \<longrightarrow> 2 \<le> length (keras_evaluate w (test_set cfg w) (BATCH_SIZE cfg))))"

section \<open>Relations between programs\<close>

text \<open>
  \<open>sim m m'\<close>: \<open>m'\<close> is \<open>m\<close> with no fault. A program only adds to the trace; what
  \<open>m\<close> adds, \<open>m'\<close> adds first; and where \<open>m\<close> returns, \<open>m'\<close> does the same.
\<close>

definition sim :: "'a prog \<Rightarrow> 'a prog \<Rightarrow> bool" where
  "sim m m' = (\<forall>tr. prefix tr (snd (m tr)) \<and> prefix (snd (m tr)) (snd (m' tr)) \<and>
                 (\<forall>x. fst (m tr) = Inr x \<longrightarrow> m' tr = m tr))"

text \<open>
  \<open>emits m v c ok\<close>: the program returns exactly when \<open>ok\<close>, then with the value \<open>v\<close>
  after the calls \<open>c\<close>; when it raises it has made an initial part of \<open>c\<close>.
\<close>

definition emits :: "'a prog \<Rightarrow> 'a \<Rightarrow> event list \<Rightarrow> bool \<Rightarrow> bool" where
  "emits m v c ok = (\<forall>tr. case m tr of
       (Inr x, t) \<Rightarrow> ok \<and> x = v \<and> t = tr @ c
     | (Inl e, t) \<Rightarrow> \<not> ok \<and> (\<exists>l. t = tr @ l \<and> prefix l c))"

text \<open>
  No call of the trace raised (\<open>clean\<close>); and, for an outcome and a trace: a call that
  raised ended the run with an exception, only the closing of an open file came after
  it, and its exception is the outcome unless that closing raised too (\<open>propagated\<close>).
\<close>

definition clean :: "faults \<Rightarrow> event list \<Rightarrow> bool" where
  "clean flt t = (\<forall>i<length t. flt i (t ! i) = None)"

definition propagated :: "faults \<Rightarrow> exn + 'a \<Rightarrow> event list \<Rightarrow> bool" where
  "propagated flt r t =
     (\<forall>i<length t. \<forall>e. flt i (t ! i) = Some e \<longrightarrow>
        (\<exists>e'. r = Inl e') \<and>
        (\<forall>j. i < j \<and> j < length t \<longrightarrow> is_close (t ! j)) \<and>
        ((\<forall>j. i < j \<and> j < length t \<longrightarrow> flt j (t ! j) = None) \<longrightarrow> r = Inl e))"

definition pres :: "faults \<Rightarrow> 'a prog \<Rightarrow> bool" where
  "pres flt m = (\<forall>tr. clean flt tr \<longrightarrow> propagated flt (fst (m tr)) (snd (m tr)))"

section \<open>A small run\<close>

text \<open>
  Two training images, two validation images of which the split keeps one, a corpus of
  two captions, one batch and one epoch.
\<close>

definition demo_cfg :: settings where
  "demo_cfg =
     \<lparr>train_data_json_path = ''train.json'', valid_data_json_path = ''valid.json'',
      text_data_json_path = ''text.json'', REDUCE_DATASET = False, MAX_VOCAB_SIZE = 2000000,
      SEQ_LENGTH = 25, TRAIN_SET_AUG = True, VALID_SET_AUG = False, TEST_SET = True,
      IMAGE_SIZE = PList [PInt 299, PInt 299], EMBED_DIM = 512, FF_DIM = 1024,
      NUM_HEADS = 6, BATCH_SIZE = 64, EPOCHS = 1, SAVE_DIR = ''save/''\<rparr>"

definition demo_samples :: "string \<Rightarrow> samples" where
  "demo_samples p =
     (if p = ''train.json''
      then [(''img1.jpg'', PList [PStr ''a cat'']), (''img2.jpg'', PList [PStr ''a dog''])]
      else [(''img3.jpg'', PList [PStr ''a cat'']), (''img4.jpg'', PList [PStr ''a dog''])])"

definition demo_batch_logs :: logs where
  "demo_batch_logs = [''loss'' \<mapsto> PFloat (1 / 2), ''acc'' \<mapsto> PFloat (1 / 4)]"

definition demo_epoch_logs :: logs where
  "demo_epoch_logs = [''loss'' \<mapsto> PFloat (1 / 2), ''acc'' \<mapsto> PFloat (1 / 4),
                      ''val_loss'' \<mapsto> PFloat (3 / 4), ''val_acc'' \<mapsto> PFloat (1 / 8)]"

definition demo_world :: world where
  "demo_world =
     \<lparr>file_text = (\<lambda>p. ''key0'' @ [CHR 0x0A]), tf_version = ''2.15.0'', gpu_devices = [],
      json_samples = demo_samples,
      json_corpus = (\<lambda>p. PList [PStr ''a cat'', PStr ''a dog'']),
      reduce_dataset_dim = (\<lambda>t v. (take 1 t, take 1 v)),
      get_vocabulary = (\<lambda>t. [[], ''[UNK]'', ''a'', ''cat'', ''dog'']),
      valid_test_split = (\<lambda>v. (take 1 v, drop 1 v)),
      fit_steps = (\<lambda>a n b. [BatchEnd 0 demo_batch_logs, EpochEnd 0 demo_epoch_logs]),
      fit_history = (\<lambda>a n b. PDict [(''loss'', PList [PFloat (1 / 2)])]),
      keras_evaluate = (\<lambda>d b. [1 / 2, 1 / 4])\<rparr>"

text \<open>Faults: the API-key file is missing; saving the weights fails.\<close>

definition no_api_key :: faults where
  "no_api_key i ev =
     (if ev = OpenRead ''apikey.txt'' then Some (External ''FileNotFoundError'') else None)"

definition disk_full :: faults where
  "disk_full i ev = (case ev of SaveWeights m p \<Rightarrow> Some (External ''OSError'') | _ \<Rightarrow> None)"

section \<open>The collaborators, as the specification describes them\<close>

text \<open>
  Modelled from the spec: the vocabulary of an adapted tokenizer. \<^verbatim>\<open>TextVectorization\<close>
  is the framework's and \<^verbatim>\<open>custom_standardization\<close> is imported from \<^verbatim>\<open>dataset.py\<close>;
  neither is among the sources. The specification says that the vocabulary holds the
  unique tokens derived from the standardized corpus plus the reserved tokens, that
  the tokens are unigrams, and that the size of the vocabulary never exceeds the
  configured maximum. The reserved tokens \<open>rsv\<close> and the standardization \<open>std\<close> are
  parameters. The corpus is a list of captions; a token is a maximal run of characters
  that are not white space. Each token is kept where it occurs last in the corpus: the
  specification fixes no order, and only the size of the vocabulary is used.
\<close>

fun split_words :: "string \<Rightarrow> string \<Rightarrow> string list" where
  "split_words acc [] = (if acc = [] then [] else [rev acc])"
| "split_words acc (c # cs) =
     (if isspace c then (if acc = [] then [] else [rev acc]) @ split_words [] cs
      else split_words (c # acc) cs)"

definition captions_of :: "pyval \<Rightarrow> string list" where
  "captions_of c =
     (case c of
        PList xs \<Rightarrow> concat (map (\<lambda>x. case x of PStr s \<Rightarrow> [s] | _ \<Rightarrow> []) xs)
      | _ \<Rightarrow> [])"

definition unique_tokens :: "(string \<Rightarrow> string) \<Rightarrow> pyval \<Rightarrow> string list" where
  "unique_tokens std c =
     remdups (concat (map (\<lambda>s. split_words [] (std s)) (captions_of c)))"

definition spec_vocabulary ::
  "string list \<Rightarrow> (string \<Rightarrow> string) \<Rightarrow> tokenizer \<Rightarrow> string list" where
  "spec_vocabulary rsv std t =
     (case adapted t of
        None \<Rightarrow> rsv
      | Some c \<Rightarrow> take (nat (max_tokens t)) (rsv @ unique_tokens std c))"


text \<open>
  Modelled from the spec: \<^verbatim>\<open>reduce_dataset_dim\<close> (\<^verbatim>\<open>dataset.py\<close>, not among the sources)
  shrinks the training and the validation mapping by a policy that the specification
  leaves open; the specification has the sample counts after it determined by the input
  mappings. So in two runs it returns the same for the same two mappings.
\<close>

definition same_reduction :: "world \<Rightarrow> world \<Rightarrow> samples \<Rightarrow> samples \<Rightarrow> bool" where
  "same_reduction w w' t v = (reduce_dataset_dim w t v = reduce_dataset_dim w' t v)"

subsection \<open>Small runs with these collaborators\<close>

text \<open>
  The small run with a vocabulary as the specification describes it: the reserved tokens
  are the padding token and \<^verbatim>\<open>[UNK]\<close>, and the captions, lower-case words without
  punctuation, are left as they are by the standardization. Then the same run with a
  maximum of three vocabulary entries.
\<close>

definition demo_reserved :: "string list" where
  "demo_reserved = [[], ''[UNK]'']"

definition demo_standardize :: "string \<Rightarrow> string" where
  "demo_standardize s = s"

definition spec_world :: world where
  "spec_world = demo_world\<lparr>get_vocabulary := spec_vocabulary demo_reserved demo_standardize\<rparr>"

definition capped_cfg :: settings where
  "capped_cfg = demo_cfg\<lparr>MAX_VOCAB_SIZE := 3\<rparr>"

text \<open>The small run without a test set, and with an empty validation file.\<close>

definition no_test_cfg :: settings where
  "no_test_cfg = demo_cfg\<lparr>TEST_SET := False\<rparr>"



section \<open>Laws of the programs\<close>

lemmas script_defs = training_def login_def load_dataset_def fit_tokenizer_def
  make_datasets_def define_model_def fit_and_evaluate_def save_all_def

lemma sim_return: "sim (return_prog x) (return_prog x)"
  by (simp add: sim_def return_prog_def)

lemma sim_lift: "sim (lift_sum r) (lift_sum r)"
  by (simp add: sim_def lift_sum_def)

lemma sim_call: "sim (call flt ev v) (call quiet ev v)"
  by (simp add: sim_def call_def quiet_def split: option.splits)

lemma sim_bind:
  assumes "sim m m'" and "\<And>x. sim (f x) (f' x)"
  shows "sim (bind_prog m f) (bind_prog m' f')"
  unfolding sim_def
proof (intro allI)
  fix tr
  obtain r t where mt: "m tr = (r, t)" by (cases "m tr")
  obtain r' t' where mt': "m' tr = (r', t')" by (cases "m' tr")
  from assms(1) mt mt' have p1: "prefix tr t" and p2: "prefix t t'"
    and eq: "\<And>x. r = Inr x \<Longrightarrow> r' = Inr x \<and> t' = t"
    by (auto simp: sim_def dest: spec [of _ tr])
  show "prefix tr (snd (bind_prog m f tr)) \<and>
        prefix (snd (bind_prog m f tr)) (snd (bind_prog m' f' tr)) \<and>
        (\<forall>x. fst (bind_prog m f tr) = Inr x \<longrightarrow> bind_prog m' f' tr = bind_prog m f tr)"
  proof (cases r)
    case (Inr x)
    with eq have r': "r' = Inr x" and t': "t' = t" by auto
    from assms(2) [of x] have
      "prefix t (snd (f x t))" "prefix (snd (f x t)) (snd (f' x t))"
      "\<forall>y. fst (f x t) = Inr y \<longrightarrow> f' x t = f x t"
      by (auto simp: sim_def)
    with p1 show ?thesis
      using mt mt' Inr r' t' by (auto simp: bind_prog_def intro: prefix_order.trans)
  next
    case (Inl e)
    have "prefix t (snd (bind_prog m' f' tr))"
    proof (cases r')
      case (Inl e')
      with mt' p2 show ?thesis by (simp add: bind_prog_def)
    next
      case (Inr x')
      from assms(2) [of x'] have "prefix t' (snd (f x' t'))" "prefix (snd (f x' t')) (snd (f' x' t'))"
        by (auto simp: sim_def)
      with p2 have "prefix t (snd (f' x' t'))" by (meson prefix_order.trans)
      with mt' Inr show ?thesis by (simp add: bind_prog_def)
    qed
    with p1 Inl mt show ?thesis by (simp add: bind_prog_def)
  qed
qed

lemma sim_if:
  "sim m m' \<Longrightarrow> sim n n' \<Longrightarrow> sim (if b then m else n) (if b then m' else n')"
  by simp

lemma sim_case_prod:
  "(\<And>a b. sim (f a b) (f' a b)) \<Longrightarrow> sim (case_prod f p) (case_prod f' p)"
  by (cases p) simp

lemma sim_with_open:
  "sim (with_open flt path (call flt ev v)) (with_open quiet path (call quiet ev v))"
  by (simp add: sim_def with_open_def try_finally_def bind_prog_def call_def quiet_def
      split: option.splits)

lemma sim_hook: "sim (hook flt c s) (hook quiet c s)"
  by (cases "(flt, c, s)" rule: hook.cases)
     (auto simp: on_batch_end_def on_epoch_end_def intro!: sim_return sim_bind sim_lift sim_call)

lemma sim_notify: "sim (notify flt cs s) (notify quiet cs s)"
  by (induction cs) (auto intro!: sim_return sim_bind sim_hook)

lemma sim_run_steps: "sim (run_steps flt cs ss) (run_steps quiet cs ss)"
  by (induction ss) (auto intro!: sim_return sim_bind sim_notify)

lemma sim_fit: "sim (fit flt w m a e b cs) (fit quiet w m a e b cs)"
  unfolding fit_def by (intro sim_bind sim_call sim_run_steps sim_return)

lemma sim_training: "sim (training flt cfg w) (training quiet cfg w)"
  unfolding script_defs Let_def
  by (intro sim_bind sim_call sim_with_open sim_fit sim_return sim_lift sim_if sim_case_prod)


lemma bind_return: "bind_prog (return_prog x) f = f x"
  by (rule ext) (simp add: bind_prog_def return_prog_def)

lemma bind_lift_Inr: "bind_prog (lift_sum (Inr x)) f = f x"
  by (rule ext) (simp add: bind_prog_def lift_sum_def)

lemma bind_lift_Inl: "bind_prog (lift_sum (Inl e)) f = lift_sum (Inl e)"
  by (rule ext) (simp add: bind_prog_def lift_sum_def)

lemma lift_sum_apply: "lift_sum r tr = (r, tr)"
  by (simp add: lift_sum_def)

lemma bind_assoc:
  "bind_prog (bind_prog m f) g = bind_prog m (\<lambda>x. bind_prog (f x) g)"
  by (rule ext) (simp add: bind_prog_def split: prod.splits sum.splits)

lemma bind_call_quiet: "bind_prog (call quiet ev v) f tr = f v (tr @ [ev])"
  by (simp add: bind_prog_def call_def quiet_def)

lemma bind_return_right: "bind_prog m return_prog = m"
  by (rule ext) (simp add: bind_prog_def return_prog_def split: prod.splits sum.splits)

lemma bind_lift_apply:
  "bind_prog (lift_sum r) f tr = (case r of Inl e \<Rightarrow> (Inl e, tr) | Inr x \<Rightarrow> f x tr)"
  by (simp add: bind_prog_def lift_sum_def split: sum.splits)

lemma bind_raise: "bind_prog (Pair (Inl e)) f = Pair (Inl e)"
  by (rule ext) (simp add: bind_prog_def)

lemma run_steps_quiet:
  "run_steps quiet [EarlyStopping p r, LambdaCallback] ss tr =
     (case steps_exn ss of None \<Rightarrow> Inr () | Some e \<Rightarrow> Inl e, tr @ steps_log ss)"
proof (induction ss arbitrary: tr)
  case Nil
  show ?case by (simp add: return_prog_def)
next
  case (Cons s ss)
  show ?case
  proof (cases s)
    case (BatchEnd b lg)
    then show ?thesis
      by (cases "batch_payload lg")
         (simp_all add: on_batch_end_def Cons.IH bind_return bind_return_right
            bind_assoc bind_call_quiet bind_lift_apply bind_raise)
  next
    case (EpochEnd e lg)
    then show ?thesis
      by (cases "epoch_payload lg")
         (simp_all add: on_epoch_end_def Cons.IH bind_return bind_return_right
            bind_assoc bind_call_quiet bind_lift_apply bind_raise)
  qed
qed

lemma emits_call: "emits (call quiet ev v) v [ev] True"
  by (simp add: emits_def call_def quiet_def)

lemma emits_cong: "emits m v c ok' \<Longrightarrow> ok = ok' \<Longrightarrow> emits m v c ok"
  by simp

lemma emits_bind:
  assumes "emits m v c1 ok1" and "emits (f v) w c2 ok2"
  shows "emits (bind_prog m f) w (c1 @ c2) (ok1 \<and> ok2)"
  unfolding emits_def
proof
  fix tr
  obtain r t where mt: "m tr = (r, t)" by (cases "m tr")
  show "case bind_prog m f tr of
          (Inr x, t) \<Rightarrow> (ok1 \<and> ok2) \<and> x = w \<and> t = tr @ c1 @ c2
        | (Inl e, t) \<Rightarrow> \<not> (ok1 \<and> ok2) \<and> (\<exists>l. t = tr @ l \<and> prefix l (c1 @ c2))"
  proof (cases r)
    case (Inl e)
    with assms(1) mt obtain l where "t = tr @ l" "prefix l c1" "\<not> ok1"
      by (auto simp: emits_def dest!: spec [of _ tr])
    with Inl mt show ?thesis
      by (auto simp: bind_prog_def intro: prefix_prefix)
  next
    case (Inr x)
    with assms(1) mt have x: "x = v" and t: "t = tr @ c1" and ok1: ok1
      by (auto simp: emits_def dest!: spec [of _ tr])
    obtain r2 t2 where ft: "f v t = (r2, t2)" by (cases "f v t")
    from assms(2) ft have
      "case r2 of Inr y \<Rightarrow> ok2 \<and> y = w \<and> t2 = t @ c2
       | Inl e \<Rightarrow> \<not> ok2 \<and> (\<exists>l. t2 = t @ l \<and> prefix l c2)"
      by (auto simp: emits_def dest!: spec [of _ t] split: sum.splits)
    with Inr mt x t ft ok1 show ?thesis
      by (cases r2) (auto simp: bind_prog_def)
  qed
qed

lemma emits_call_bind:
  "emits (f v) w c ok \<Longrightarrow> emits (bind_prog (call quiet ev v) f) w (ev # c) ok"
  using emits_bind [OF emits_call] by fastforce

lemma emits_index_bind:
  "emits (f (xs ! i)) w c ok \<Longrightarrow>
   emits (bind_prog (lift_sum (py_index xs i)) f) w c (i < length xs \<and> ok)"
  by (simp add: py_index_def bind_lift_Inr bind_lift_Inl) (simp add: emits_def lift_sum_def)

lemma emits_var_bind:
  "emits (f x) w c ok \<Longrightarrow> emits (bind_prog (lift_sum (py_var n (Some x))) f) w c ok"
  by (simp add: py_var_def bind_lift_Inr)

lemma emits_open:
  "emits (with_open quiet p (call quiet ev v)) v [OpenRead p, ev, FileClose p] True"
  by (simp add: emits_def with_open_def try_finally_def bind_prog_def call_def quiet_def)

lemma emits_open_bind:
  "emits (f v) w c ok \<Longrightarrow>
   emits (bind_prog (with_open quiet p (call quiet ev v)) f) w
     (OpenRead p # ev # FileClose p # c) ok"
  using emits_bind [OF emits_open] by fastforce

lemma emits_fit:
  "emits (fit quiet w m a e b [EarlyStopping p r, LambdaCallback]) (fit_history w a e b)
     (Fit m a e b [EarlyStopping p r, LambdaCallback] # steps_log (fit_steps w a e b))
     (steps_exn (fit_steps w a e b) = None)"
  by (simp add: emits_def fit_def bind_call_quiet bind_prog_def [of "run_steps _ _ _"]
      run_steps_quiet return_prog_def split: option.splits)

lemma emits_fit_bind:
  "emits (f (fit_history w a e b)) u c ok \<Longrightarrow>
   emits (bind_prog (fit quiet w m a e b [EarlyStopping p r, LambdaCallback]) f) u
     (Fit m a e b [EarlyStopping p r, LambdaCallback] # steps_log (fit_steps w a e b) @ c)
     (steps_exn (fit_steps w a e b) = None \<and> ok)"
  using emits_bind [OF emits_fit] by fastforce

lemmas emits_rules = emits_call_bind emits_index_bind emits_var_bind
  emits_open_bind emits_fit_bind emits_call

lemmas value_defs = loaded_train_def loaded_valid_def corpus_def reduced_def
  fitted_tokenizer_def vocab_size_def split_result_def train_set_def valid_set_def test_set_def
  the_model_def config_train_def the_steps_def

lemmas phase_defs = startup_events_def loading_events_def tokenizer_events_def
  dataset_events_def model_events_def fit_events_def evaluation_events_def
  persistence_events_def

lemma emits_training: "emits (training quiet cfg w) () (full_run cfg w) (run_ok cfg w)"
proof (cases "REDUCE_DATASET cfg"; cases "TEST_SET cfg")
  assume "REDUCE_DATASET cfg" "TEST_SET cfg"
  then show ?thesis
    apply (simp add: script_defs full_run_def phase_defs value_defs Let_def split_def
        bind_assoc bind_return wandb_callback_def new_tokenizer_def [symmetric]
        del: One_nat_def)
    apply (rule emits_cong)
     apply (rule emits_rules)+
    apply (simp add: run_ok_def value_defs del: length_greater_0_conv)
    apply linarith
    done
next
  assume "REDUCE_DATASET cfg" "\<not> TEST_SET cfg"
  then show ?thesis
    apply (simp add: script_defs full_run_def phase_defs value_defs Let_def split_def
        bind_assoc bind_return wandb_callback_def new_tokenizer_def [symmetric]
        del: One_nat_def)
    apply (rule emits_cong)
     apply (rule emits_rules)+
    apply (simp add: run_ok_def value_defs del: length_greater_0_conv)
    apply linarith
    done
next
  assume "\<not> REDUCE_DATASET cfg" "TEST_SET cfg"
  then show ?thesis
    apply (simp add: script_defs full_run_def phase_defs value_defs Let_def split_def
        bind_assoc bind_return wandb_callback_def new_tokenizer_def [symmetric]
        del: One_nat_def)
    apply (rule emits_cong)
     apply (rule emits_rules)+
    apply (simp add: run_ok_def value_defs del: length_greater_0_conv)
    apply linarith
    done
next
  assume "\<not> REDUCE_DATASET cfg" "\<not> TEST_SET cfg"
  then show ?thesis
    apply (simp add: script_defs full_run_def phase_defs value_defs Let_def split_def
        bind_assoc bind_return wandb_callback_def new_tokenizer_def [symmetric]
        del: One_nat_def)
    apply (rule emits_cong)
     apply (rule emits_rules)+
    apply (simp add: run_ok_def value_defs del: length_greater_0_conv)
    apply linarith
    done
qed

lemma quiet_run:
  obtains r t where "training quiet cfg w [] = (r, t)" "prefix t (full_run cfg w)"
    "r = Inr () \<longrightarrow> t = full_run cfg w" "run_ok cfg w \<longleftrightarrow> r = Inr ()"
proof -
  obtain r t where rt: "training quiet cfg w [] = (r, t)"
    by (cases "training quiet cfg w []")
  from emits_training [of cfg w] rt
  have "case r of Inr x \<Rightarrow> run_ok cfg w \<and> t = full_run cfg w
        | Inl e \<Rightarrow> \<not> run_ok cfg w \<and> prefix t (full_run cfg w)"
    by (auto simp: emits_def dest!: spec [of _ "[]"] split: sum.splits)
  then have "prefix t (full_run cfg w)" "r = Inr () \<longrightarrow> t = full_run cfg w"
    "run_ok cfg w \<longleftrightarrow> r = Inr ()"
    by (cases r; simp)+
  with rt that show ?thesis by blast
qed

lemma trace_prefix: "prefix (trace flt cfg w) (full_run cfg w)"
proof -
  obtain r t where rt: "training quiet cfg w [] = (r, t)" "prefix t (full_run cfg w)"
    by (rule quiet_run)
  have "prefix (trace flt cfg w) (trace quiet cfg w)"
    using sim_training [of flt cfg w] by (simp add: sim_def trace_def)
  with rt show ?thesis
    by (simp add: trace_def)
qed

lemma trace_complete:
  assumes "outcome flt cfg w = Inr ()"
  shows "trace flt cfg w = full_run cfg w"
proof -
  obtain r t where rt: "training quiet cfg w [] = (r, t)"
    "r = Inr () \<longrightarrow> t = full_run cfg w"
    by (rule quiet_run)
  from assms sim_training [of flt cfg w]
  have "training quiet cfg w [] = training flt cfg w []"
    by (simp add: sim_def outcome_def)
  with assms rt show ?thesis
    by (simp add: trace_def outcome_def)
qed

lemma quiet_completes:
  assumes "run_ok cfg w"
  shows "outcome quiet cfg w = Inr ()"
proof -
  obtain r t where "training quiet cfg w [] = (r, t)" "run_ok cfg w \<longleftrightarrow> r = Inr ()"
    by (rule quiet_run)
  with assms show ?thesis by (simp add: outcome_def)
qed


lemma completes_ok:
  assumes "outcome flt cfg w = Inr ()"
  shows "run_ok cfg w"
proof -
  obtain r t where rt: "training quiet cfg w [] = (r, t)" "run_ok cfg w \<longleftrightarrow> r = Inr ()"
    by (rule quiet_run)
  from assms sim_training [of flt cfg w]
  have "training quiet cfg w [] = training flt cfg w []"
    by (simp add: sim_def outcome_def)
  with assms rt show ?thesis by (simp add: outcome_def)
qed

lemma propagated_clean: "clean flt t \<Longrightarrow> propagated flt r t"
  by (simp add: clean_def propagated_def)

lemma propagated_Inr: "propagated flt (Inr x) t \<Longrightarrow> clean flt t"
  unfolding clean_def propagated_def
  by (metis Inl_Inr_False option.exhaust)

lemma propagated_Inl: "propagated flt (Inl e :: exn + 'a) t \<Longrightarrow> propagated flt (Inl e :: exn + 'b) t"
  unfolding propagated_def by blast

lemma pres_return: "pres flt (return_prog x)"
  by (simp add: pres_def return_prog_def propagated_clean)

lemma pres_lift: "pres flt (lift_sum r)"
  by (simp add: pres_def lift_sum_def propagated_clean)

lemma pres_call: "pres flt (call flt ev v)"
  unfolding pres_def call_def clean_def propagated_def
  by (auto simp: nth_append less_Suc_eq split: option.splits)

lemma pres_bind:
  assumes "pres flt m" and "\<And>x. pres flt (f x)"
  shows "pres flt (bind_prog m f)"
  unfolding pres_def
proof (intro allI impI)
  fix tr assume c: "clean flt tr"
  obtain r t where mt: "m tr = (r, t)" by (cases "m tr")
  from assms(1) c mt have p: "propagated flt r t" by (auto simp: pres_def)
  show "propagated flt (fst (bind_prog m f tr)) (snd (bind_prog m f tr))"
  proof (cases r)
    case (Inl e)
    with p mt show ?thesis by (auto simp: bind_prog_def intro: propagated_Inl)
  next
    case (Inr x)
    with p have "clean flt t" by (auto dest: propagated_Inr)
    with assms(2) [of x] have "propagated flt (fst (f x t)) (snd (f x t))"
      by (simp add: pres_def)
    with Inr mt show ?thesis by (simp add: bind_prog_def)
  qed
qed

lemma pres_if: "pres flt m \<Longrightarrow> pres flt n \<Longrightarrow> pres flt (if b then m else n)"
  by simp

lemma pres_case_prod: "(\<And>a b. pres flt (f a b)) \<Longrightarrow> pres flt (case_prod f p)"
  by (cases p) simp

lemma pres_with_open: "pres flt (with_open flt path (call flt ev v))"
  unfolding pres_def with_open_def try_finally_def bind_prog_def call_def clean_def
    propagated_def is_close_def
  by (auto simp: nth_append less_Suc_eq split: option.splits)

lemma pres_hook: "pres flt (hook flt c s)"
  by (cases "(flt, c, s)" rule: hook.cases)
     (auto simp: on_batch_end_def on_epoch_end_def intro!: pres_return pres_bind pres_lift pres_call)

lemma pres_notify: "pres flt (notify flt cs s)"
  by (induction cs) (auto intro!: pres_return pres_bind pres_hook)

lemma pres_run_steps: "pres flt (run_steps flt cs ss)"
  by (induction ss) (auto intro!: pres_return pres_bind pres_notify)

lemma pres_fit: "pres flt (fit flt w m a e b cs)"
  unfolding fit_def by (intro pres_bind pres_call pres_run_steps pres_return)

lemma pres_training: "pres flt (training flt cfg w)"
  unfolding script_defs Let_def
  by (intro pres_bind pres_call pres_with_open pres_fit pres_return pres_lift pres_if
      pres_case_prod)

lemma run_propagated: "propagated flt (outcome flt cfg w) (trace flt cfg w)"
  using pres_training [of flt cfg w] by (simp add: pres_def clean_def outcome_def trace_def)


section \<open>The small run, evaluated\<close>

lemmas demo_defs = demo_cfg_def demo_world_def demo_samples_def demo_batch_logs_def
  demo_epoch_logs_def

lemma demo_ok: "run_ok demo_cfg demo_world"
  by (simp add: run_ok_def the_steps_def demo_defs batch_payload_def epoch_payload_def
      py_getitem_def)

lemma demo_completes: "outcome quiet demo_cfg demo_world = Inr ()"
  by (rule quiet_completes [OF demo_ok])

lemma demo_trace: "trace quiet demo_cfg demo_world = full_run demo_cfg demo_world"
  by (rule trace_complete [OF demo_completes])

lemmas run_simps = script_defs with_open_def try_finally_def bind_prog_def call_def
  return_prog_def lift_sum_def fit_def on_batch_end_def on_epoch_end_def
  batch_payload_def epoch_payload_def py_getitem_def py_get_def py_index_def py_var_def
  wandb_callback_def Let_def

lemma no_api_key_run:
  "training no_api_key demo_cfg demo_world [] =
     (Inl (External ''FileNotFoundError''), [OpenRead ''apikey.txt''])"
  by (simp add: run_simps no_api_key_def)

lemma disk_full_run:
  "training disk_full demo_cfg demo_world [] =
     (Inl (External ''OSError''), take 53 (full_run demo_cfg demo_world))"
  by (simp add: run_simps disk_full_def demo_defs full_run_def phase_defs value_defs
      new_tokenizer_def)

section \<open>Exceptions leave the script\<close>

text \<open>
  Claim C6. The script catches nothing, retries nothing and recovers from nothing.
  Whatever external call raises (opening or reading a file, parsing JSON, the tracker's
  login, any call of the framework), the run ends there with an exception as its
  outcome: the only call that can still follow is the closing of the file of the
  \<^verbatim>\<open>with\<close> block that is being left, and the exception that leaves the script is the
  one that was raised unless that closing raises too. The calls made are an initial part
  of the calls of an undisturbed run, so the artifacts written so far stay, and the
  later ones are missing.
\<close>

theorem exceptions_propagate:
  assumes "i < length (trace flt cfg w)"
    and "flt i (trace flt cfg w ! i) = Some e"
  shows "(\<exists>e'. outcome flt cfg w = Inl e') \<and>
         (\<forall>j. i < j \<and> j < length (trace flt cfg w) \<longrightarrow> is_close (trace flt cfg w ! j)) \<and>
         ((\<forall>j. i < j \<and> j < length (trace flt cfg w) \<longrightarrow> flt j (trace flt cfg w ! j) = None)
            \<longrightarrow> outcome flt cfg w = Inl e) \<and>
         prefix (trace flt cfg w) (full_run cfg w)"
  using run_propagated [of flt cfg w] assms trace_prefix [of flt cfg w]
  unfolding propagated_def by blast


text \<open>
  In the small run, saving the weights fails: the history file has been opened and
  written, the configuration file is never opened, and the tracker run is not finished.
\<close>

theorem exceptions_propagate_witness:
  "52 < length (trace disk_full demo_cfg demo_world) \<and>
   disk_full 52 (trace disk_full demo_cfg demo_world ! 52) = Some (External ''OSError'') \<and>
   outcome disk_full demo_cfg demo_world = Inl (External ''OSError'') \<and>
   OpenWrite ''save/history.json'' \<in> set (trace disk_full demo_cfg demo_world) \<and>
   OpenWrite ''save/config_train.json'' \<notin> set (trace disk_full demo_cfg demo_world) \<and>
   RunFinish \<notin> set (trace disk_full demo_cfg demo_world)"
proof -
  have t: "trace disk_full demo_cfg demo_world = take 53 (full_run demo_cfg demo_world)"
    by (simp add: trace_def disk_full_run)
  have n: "length (full_run demo_cfg demo_world) = 58"
    by (simp add: full_run_def phase_defs demo_defs the_steps_def batch_payload_def
        epoch_payload_def py_getitem_def)
  have l: "52 < length (trace disk_full demo_cfg demo_world)"
    by (simp add: t n)
  have x: "trace disk_full demo_cfg demo_world ! 52 =
      SaveWeights (the_model demo_cfg demo_world) ''save/big_model_weights_coco.weights.h5''"
    by (subst t)
       (simp add: n full_run_def phase_defs demo_defs the_steps_def batch_payload_def
          epoch_payload_def py_getitem_def the_model_def)
  have f: "disk_full 52 (trace disk_full demo_cfg demo_world ! 52) = Some (External ''OSError'')"
    by (simp add: x disk_full_def)
  have m: "OpenWrite ''save/history.json'' \<in> set (trace disk_full demo_cfg demo_world) \<and>
      OpenWrite ''save/config_train.json'' \<notin> set (trace disk_full demo_cfg demo_world) \<and>
      RunFinish \<notin> set (trace disk_full demo_cfg demo_world)"
    unfolding t
    by (simp add: full_run_def phase_defs demo_defs the_steps_def batch_payload_def
        epoch_payload_def py_getitem_def)
  from exceptions_propagate [OF l f] l t n
  have "outcome disk_full demo_cfg demo_world = Inl (External ''OSError'')"
    by auto
  with l f m show ?thesis by simp
qed


section \<open>The logging callback\<close>

lemma steps_log_all2:
  "steps_exn ss = None \<Longrightarrow>
   list_all2 (\<lambda>s ev. \<exists>d. step_payload s = Inr d \<and> ev = WandbLog d) ss (steps_log ss)"
  by (induction ss) (auto split: sum.splits)

lemma batch_payload_keys:
  "batch_payload lg = Inr d \<Longrightarrow> map fst d = [''batch_train_loss'', ''batch_train_accuracy'']"
  by (auto simp: batch_payload_def split: sum.splits)

lemma epoch_payload_keys:
  "epoch_payload lg = Inr d \<Longrightarrow>
   map fst d = [''epoch_train_loss'', ''epoch_valid_loss'', ''epoch_valid_accuracy'']"
  by (auto simp: epoch_payload_def split: sum.splits)

text \<open>
  Claim C4, as the code has it. For every batch the callback sends the training loss and
  the training accuracy; for every epoch it sends the training loss, the validation loss
  and the validation accuracy (\<open>PNone\<close> for a validation entry that \<^verbatim>\<open>logs\<close> lacks),
  under three keys: the line that would send the epoch's training accuracy is commented
  out in the source. In a run that completes, the tracker calls that follow the call of
  \<^verbatim>\<open>fit\<close> are these payloads, one for each step of the framework, in order.
\<close>

theorem callback_forwards:
  "(lg ''loss'' = Some l \<and> lg ''acc'' = Some a \<longrightarrow>
      batch_payload lg = Inr [(''batch_train_loss'', l), (''batch_train_accuracy'', a)]) \<and>
   (lg ''loss'' = Some l \<longrightarrow>
      epoch_payload lg = Inr [(''epoch_train_loss'', l),
                              (''epoch_valid_loss'', py_get lg ''val_loss'' PNone),
                              (''epoch_valid_accuracy'', py_get lg ''val_acc'' PNone)]) \<and>
   (outcome flt cfg w = Inr () \<longrightarrow>
      (\<exists>pre sent post.
         trace flt cfg w =
           pre @ Fit (the_model cfg w) (train_set cfg w) (EPOCHS cfg) (valid_set cfg w)
                   [EarlyStopping 3 True, wandb_callback] # sent @ post \<and>
         list_all2 (\<lambda>s ev. \<exists>d. step_payload s = Inr d \<and> ev = WandbLog d)
           (the_steps cfg w) sent))"
proof (intro conjI impI)
  assume "lg ''loss'' = Some l \<and> lg ''acc'' = Some a"
  then show "batch_payload lg = Inr [(''batch_train_loss'', l), (''batch_train_accuracy'', a)]"
    by (simp add: batch_payload_def py_getitem_def)
next
  assume "lg ''loss'' = Some l"
  then show "epoch_payload lg = Inr [(''epoch_train_loss'', l),
                              (''epoch_valid_loss'', py_get lg ''val_loss'' PNone),
                              (''epoch_valid_accuracy'', py_get lg ''val_acc'' PNone)]"
    by (simp add: epoch_payload_def py_getitem_def)
next
  assume fin: "outcome flt cfg w = Inr ()"
  then have t: "trace flt cfg w = full_run cfg w" by (rule trace_complete)
  from fin have "run_ok cfg w" by (rule completes_ok)
  then have "steps_exn (the_steps cfg w) = None" by (simp add: run_ok_def)
  then have a: "list_all2 (\<lambda>s ev. \<exists>d. step_payload s = Inr d \<and> ev = WandbLog d)
      (the_steps cfg w) (steps_log (the_steps cfg w))"
    by (rule steps_log_all2)
  have "trace flt cfg w =
      (startup_events cfg w @ loading_events cfg w @ tokenizer_events cfg w @
       dataset_events cfg w @ model_events cfg w)
      @ Fit (the_model cfg w) (train_set cfg w) (EPOCHS cfg) (valid_set cfg w)
          [EarlyStopping 3 True, wandb_callback] # steps_log (the_steps cfg w)
      @ (evaluation_events cfg w @ persistence_events cfg w @ [RunFinish])"
    by (simp add: t full_run_def fit_events_def)
  with a show "\<exists>pre sent post.
         trace flt cfg w =
           pre @ Fit (the_model cfg w) (train_set cfg w) (EPOCHS cfg) (valid_set cfg w)
                   [EarlyStopping 3 True, wandb_callback] # sent @ post \<and>
         list_all2 (\<lambda>s ev. \<exists>d. step_payload s = Inr d \<and> ev = WandbLog d)
           (the_steps cfg w) sent"
    by blast
qed

theorem callback_forwards_witness:
  "batch_payload demo_batch_logs =
     Inr [(''batch_train_loss'', PFloat (1 / 2)), (''batch_train_accuracy'', PFloat (1 / 4))] \<and>
   epoch_payload demo_epoch_logs =
     Inr [(''epoch_train_loss'', PFloat (1 / 2)), (''epoch_valid_loss'', PFloat (3 / 4)),
          (''epoch_valid_accuracy'', PFloat (1 / 8))] \<and>
   outcome quiet demo_cfg demo_world = Inr () \<and>
   (\<exists>pre sent post.
      trace quiet demo_cfg demo_world =
        pre @ Fit (the_model demo_cfg demo_world) (train_set demo_cfg demo_world) 1
                (valid_set demo_cfg demo_world) [EarlyStopping 3 True, wandb_callback]
              # sent @ post \<and>
      list_all2 (\<lambda>s ev. \<exists>d. step_payload s = Inr d \<and> ev = WandbLog d)
        [BatchEnd 0 demo_batch_logs, EpochEnd 0 demo_epoch_logs] sent)"
proof -
  have b: "demo_batch_logs ''loss'' = Some (PFloat (1 / 2)) \<and>
           demo_batch_logs ''acc'' = Some (PFloat (1 / 4))"
    by (simp add: demo_batch_logs_def)
  have e: "demo_epoch_logs ''loss'' = Some (PFloat (1 / 2))"
    by (simp add: demo_epoch_logs_def)
  have v: "py_get demo_epoch_logs ''val_loss'' PNone = PFloat (3 / 4)"
    "py_get demo_epoch_logs ''val_acc'' PNone = PFloat (1 / 8)"
    by (simp_all add: demo_epoch_logs_def py_get_def)
  have s: "the_steps demo_cfg demo_world = [BatchEnd 0 demo_batch_logs, EpochEnd 0 demo_epoch_logs]"
    by (simp add: the_steps_def demo_world_def)
  have n: "EPOCHS demo_cfg = 1" by (simp add: demo_cfg_def)
  from callback_forwards [of demo_batch_logs "PFloat (1 / 2)" "PFloat (1 / 4)"] b
  have 1: "batch_payload demo_batch_logs =
     Inr [(''batch_train_loss'', PFloat (1 / 2)), (''batch_train_accuracy'', PFloat (1 / 4))]"
    by blast
  from callback_forwards [of demo_epoch_logs "PFloat (1 / 2)"] e v
  have 2: "epoch_payload demo_epoch_logs =
     Inr [(''epoch_train_loss'', PFloat (1 / 2)), (''epoch_valid_loss'', PFloat (3 / 4)),
          (''epoch_valid_accuracy'', PFloat (1 / 8))]"
    by simp
  from callback_forwards [of _ _ _ quiet demo_cfg demo_world] demo_completes
  have 3: "\<exists>pre sent post.
      trace quiet demo_cfg demo_world =
        pre @ Fit (the_model demo_cfg demo_world) (train_set demo_cfg demo_world)
                (EPOCHS demo_cfg)
                (valid_set demo_cfg demo_world) [EarlyStopping 3 True, wandb_callback]
              # sent @ post \<and>
      list_all2 (\<lambda>s ev. \<exists>d. step_payload s = Inr d \<and> ev = WandbLog d)
        (the_steps demo_cfg demo_world) sent"
    by blast
  from 1 2 3 demo_completes show ?thesis by (simp only: s n)
qed

text \<open>
  The claim as it is written has the epoch's accuracy forwarded as well. At the end of
  an epoch whose \<^verbatim>\<open>logs\<close> hold a training accuracy of 1/4, the tracker gets three
  values and 1/4 is not among them.
\<close>

theorem epoch_accuracy_counterexample:
  "demo_epoch_logs ''acc'' = Some (PFloat (1 / 4)) \<and>
   on_epoch_end quiet 0 demo_epoch_logs [] =
     (Inr (), [WandbLog [(''epoch_train_loss'', PFloat (1 / 2)),
                         (''epoch_valid_loss'', PFloat (3 / 4)),
                         (''epoch_valid_accuracy'', PFloat (1 / 8))]])"
  by (simp add: on_epoch_end_def epoch_payload_def py_getitem_def py_get_def
      demo_epoch_logs_def bind_prog_def lift_sum_def call_def quiet_def)

text \<open>
  Claim C10, as the code has it. The per-epoch lambda reads the two validation entries
  with a defaulting lookup, so their absence raises nothing and \<open>PNone\<close> is sent for
  them; but it indexes \<^verbatim>\<open>logs['loss']\<close> directly, so it raises \<^verbatim>\<open>KeyError\<close> exactly when
  that key is missing. The per-batch lambda indexes \<^verbatim>\<open>'loss'\<close> and then \<^verbatim>\<open>'acc'\<close>
  directly and raises \<^verbatim>\<open>KeyError\<close> for the first of them that is missing. Where no key
  is missing, the lambda is the tracker call and nothing else.
\<close>

theorem callback_key_errors:
  "(lg ''loss'' = None \<longrightarrow> on_epoch_end flt n lg tr = (Inl (KeyError ''loss''), tr)) \<and>
   (lg ''loss'' = Some l \<longrightarrow>
      on_epoch_end flt n lg tr =
        call flt (WandbLog [(''epoch_train_loss'', l),
                            (''epoch_valid_loss'', case lg ''val_loss'' of None \<Rightarrow> PNone | Some v \<Rightarrow> v),
                            (''epoch_valid_accuracy'', case lg ''val_acc'' of None \<Rightarrow> PNone | Some v \<Rightarrow> v)])
          () tr) \<and>
   (lg ''loss'' = None \<longrightarrow> on_batch_end flt n lg tr = (Inl (KeyError ''loss''), tr)) \<and>
   (lg ''loss'' = Some l \<and> lg ''acc'' = None \<longrightarrow>
      on_batch_end flt n lg tr = (Inl (KeyError ''acc''), tr)) \<and>
   (lg ''loss'' = Some l \<and> lg ''acc'' = Some a \<longrightarrow>
      on_batch_end flt n lg tr =
        call flt (WandbLog [(''batch_train_loss'', l), (''batch_train_accuracy'', a)]) () tr)"
  by (simp add: on_epoch_end_def on_batch_end_def epoch_payload_def batch_payload_def
      py_getitem_def py_get_def bind_prog_def lift_sum_def)

theorem callback_key_errors_witness:
  "on_epoch_end quiet 0 [''loss'' \<mapsto> PFloat (1 / 2)] [] =
     (Inr (), [WandbLog [(''epoch_train_loss'', PFloat (1 / 2)), (''epoch_valid_loss'', PNone),
                         (''epoch_valid_accuracy'', PNone)]]) \<and>
   on_batch_end quiet 0 [''loss'' \<mapsto> PFloat (1 / 2)] [] = (Inl (KeyError ''acc''), []) \<and>
   on_batch_end quiet 0 demo_batch_logs [] =
     (Inr (), [WandbLog [(''batch_train_loss'', PFloat (1 / 2)),
                         (''batch_train_accuracy'', PFloat (1 / 4))]]) \<and>
   on_batch_end quiet 0 Map.empty [] = (Inl (KeyError ''loss''), []) \<and>
   on_epoch_end quiet 0 [''acc'' \<mapsto> PFloat (1 / 4)] [] = (Inl (KeyError ''loss''), [])"
  using callback_key_errors [of "[''loss'' \<mapsto> PFloat (1 / 2)]" quiet 0 "[]" "PFloat (1 / 2)"]
    callback_key_errors [of demo_batch_logs quiet 0 "[]" "PFloat (1 / 2)" "PFloat (1 / 4)"]
    callback_key_errors [of Map.empty quiet 0 "[]"]
    callback_key_errors [of "[''acc'' \<mapsto> PFloat (1 / 4)]" quiet 0 "[]"]
  by (simp add: call_def quiet_def demo_batch_logs_def)

text \<open>
  The claim as it is written has the per-epoch lambda never raise. With no validation
  metrics and no \<^verbatim>\<open>'loss'\<close> in \<^verbatim>\<open>logs\<close> it raises.
\<close>

theorem epoch_never_raises_counterexample:
  "on_epoch_end quiet 0 Map.empty [] = (Inl (KeyError ''loss''), [])"
  by (simp add: on_epoch_end_def epoch_payload_def py_getitem_def bind_prog_def lift_sum_def)


section \<open>Facts about every run\<close>

lemma in_trace: "ev \<in> set (trace flt cfg w) \<Longrightarrow> ev \<in> set (full_run cfg w)"
  using set_mono_prefix [OF trace_prefix [of flt cfg w]] by blast

lemma steps_log_log:
  "ev \<in> set (steps_log ss) \<Longrightarrow>
   \<exists>d. ev = WandbLog d \<and>
       (map fst d = [''batch_train_loss'', ''batch_train_accuracy''] \<or>
        map fst d = [''epoch_train_loss'', ''epoch_valid_loss'', ''epoch_valid_accuracy''])"
proof (induction ss)
  case Nil
  then show ?case by simp
next
  case (Cons s ss)
  show ?case
  proof (cases "step_payload s")
    case (Inl e)
    with Cons.prems show ?thesis by simp
  next
    case (Inr d)
    then have k: "map fst d = [''batch_train_loss'', ''batch_train_accuracy''] \<or>
        map fst d = [''epoch_train_loss'', ''epoch_valid_loss'', ''epoch_valid_accuracy'']"
      by (cases s) (auto dest: batch_payload_keys epoch_payload_keys)
    from Cons.prems Inr consider "ev = WandbLog d" | "ev \<in> set (steps_log ss)" by auto
    then show ?thesis
    proof cases
      case 1
      with k show ?thesis by simp
    next
      case 2
      then show ?thesis by (rule Cons.IH)
    qed
  qed
qed

lemma before_prefix: "prefix ys xs \<Longrightarrow> prefix (before P ys) (before P xs)"
  unfolding before_def by (rule prefix_takeWhile)

lemma before_prefix_eq:
  assumes "prefix ys xs" and "\<exists>y\<in>set ys. P y"
  shows "before P ys = before P xs"
proof -
  from assms(1) obtain zs where "xs = ys @ zs" by (auto elim: prefixE)
  with assms(2) show ?thesis
    unfolding before_def by (auto simp: takeWhile_append1)
qed

lemma from_first_prefix: "prefix ys xs \<Longrightarrow> prefix (from_first P ys) (from_first P xs)"
  unfolding from_first_def by (rule prefix_dropWhile)

lemma before_trace:
  "\<exists>ev\<in>set (trace flt cfg w). P ev \<Longrightarrow>
   before P (trace flt cfg w) = before P (full_run cfg w)"
  by (rule before_prefix_eq [OF trace_prefix])

lemma fit_in_full_run:
  "Fit m a n b cbs \<in> set (full_run cfg w) \<Longrightarrow>
   m = the_model cfg w \<and> a = train_set cfg w \<and> n = EPOCHS cfg \<and> b = valid_set cfg w \<and>
   cbs = [EarlyStopping 3 True, wandb_callback]"
  by (auto simp: full_run_def phase_defs dest: steps_log_log split: if_splits)

lemma filter_steps_log: "(\<And>d. \<not> P (WandbLog d)) \<Longrightarrow> filter P (steps_log ss) = []"
  by (auto simp: filter_empty_conv dest: steps_log_log)

lemma before_fit_full_run:
  "before is_fit (full_run cfg w) =
     startup_events cfg w @ loading_events cfg w @ tokenizer_events cfg w @
     dataset_events cfg w @ model_events cfg w"
  by (simp add: before_def full_run_def phase_defs is_fit_def)

section \<open>Early stopping\<close>

text \<open>
  Claim C7. Early stopping is created with a patience of 3 epochs and with the
  restoration of the best weights, before \<^verbatim>\<open>fit\<close> is called; every call of \<^verbatim>\<open>fit\<close> is
  given the validation dataset and the list of exactly two callbacks, early stopping and
  the logging callback, in this order; a run that completes calls \<^verbatim>\<open>fit\<close> once. (The
  criterion that early stopping monitors is the framework's default: the script passes
  none.)
\<close>

theorem early_stopping_installed:
  "(\<forall>m a n b cbs. Fit m a n b cbs \<in> set (trace flt cfg w) \<longrightarrow>
      cbs = [EarlyStopping 3 True, wandb_callback] \<and> n = EPOCHS cfg \<and> b = valid_set cfg w) \<and>
   (\<forall>p r. NewEarlyStopping p r \<in> set (trace flt cfg w) \<longrightarrow> p = 3 \<and> r) \<and>
   ((\<exists>ev\<in>set (trace flt cfg w). is_fit ev) \<longrightarrow>
      NewEarlyStopping 3 True \<in> set (before is_fit (trace flt cfg w))) \<and>
   (outcome flt cfg w = Inr () \<longrightarrow>
      filter is_fit (trace flt cfg w) =
        [Fit (the_model cfg w) (train_set cfg w) (EPOCHS cfg) (valid_set cfg w)
           [EarlyStopping 3 True, wandb_callback]])"
proof -
  have c1: "\<forall>m a n b cbs. Fit m a n b cbs \<in> set (trace flt cfg w) \<longrightarrow>
      cbs = [EarlyStopping 3 True, wandb_callback] \<and> n = EPOCHS cfg \<and> b = valid_set cfg w"
  proof (intro allI impI)
    fix m a n b cbs
    assume "Fit m a n b cbs \<in> set (trace flt cfg w)"
    then have "Fit m a n b cbs \<in> set (full_run cfg w)" by (rule in_trace)
    from fit_in_full_run [OF this]
    show "cbs = [EarlyStopping 3 True, wandb_callback] \<and> n = EPOCHS cfg \<and>
        b = valid_set cfg w"
      by simp
  qed
  have c2: "\<forall>p r. NewEarlyStopping p r \<in> set (trace flt cfg w) \<longrightarrow> p = 3 \<and> r"
  proof (intro allI impI)
    fix p r
    assume "NewEarlyStopping p r \<in> set (trace flt cfg w)"
    then have "NewEarlyStopping p r \<in> set (full_run cfg w)" by (rule in_trace)
    then show "p = 3 \<and> r"
      by (auto simp: full_run_def phase_defs dest: steps_log_log split: if_splits)
  qed
  have c3: "(\<exists>ev\<in>set (trace flt cfg w). is_fit ev) \<longrightarrow>
      NewEarlyStopping 3 True \<in> set (before is_fit (trace flt cfg w))"
  proof
    assume "\<exists>ev\<in>set (trace flt cfg w). is_fit ev"
    then have "before is_fit (trace flt cfg w) = before is_fit (full_run cfg w)"
      by (rule before_trace)
    then show "NewEarlyStopping 3 True \<in> set (before is_fit (trace flt cfg w))"
      by (simp add: before_fit_full_run model_events_def)
  qed
  have c4: "outcome flt cfg w = Inr () \<longrightarrow>
      filter is_fit (trace flt cfg w) =
        [Fit (the_model cfg w) (train_set cfg w) (EPOCHS cfg) (valid_set cfg w)
           [EarlyStopping 3 True, wandb_callback]]"
  proof
    assume "outcome flt cfg w = Inr ()"
    then have "trace flt cfg w = full_run cfg w" by (rule trace_complete)
    then show "filter is_fit (trace flt cfg w) =
        [Fit (the_model cfg w) (train_set cfg w) (EPOCHS cfg) (valid_set cfg w)
           [EarlyStopping 3 True, wandb_callback]]"
      by (simp add: full_run_def phase_defs is_fit_def filter_steps_log)
  qed
  show ?thesis by (intro conjI c1 c2 c3 c4)
qed

lemma demo_fit:
  "Fit (the_model demo_cfg demo_world) (train_set demo_cfg demo_world) 1
     (valid_set demo_cfg demo_world) [EarlyStopping 3 True, wandb_callback]
   \<in> set (full_run demo_cfg demo_world)"
  by (simp add: full_run_def fit_events_def demo_cfg_def)

theorem early_stopping_installed_witness:
  "outcome quiet demo_cfg demo_world = Inr () \<and>
   Fit (the_model demo_cfg demo_world) (train_set demo_cfg demo_world) 1
     (valid_set demo_cfg demo_world) [EarlyStopping 3 True, wandb_callback]
     \<in> set (trace quiet demo_cfg demo_world) \<and>
   NewEarlyStopping 3 True \<in> set (before is_fit (trace quiet demo_cfg demo_world)) \<and>
   filter is_fit (trace quiet demo_cfg demo_world) =
     [Fit (the_model demo_cfg demo_world) (train_set demo_cfg demo_world) 1
        (valid_set demo_cfg demo_world) [EarlyStopping 3 True, wandb_callback]]"
proof -
  have n: "EPOCHS demo_cfg = 1" by (simp add: demo_cfg_def)
  have f: "Fit (the_model demo_cfg demo_world) (train_set demo_cfg demo_world) 1
     (valid_set demo_cfg demo_world) [EarlyStopping 3 True, wandb_callback]
     \<in> set (trace quiet demo_cfg demo_world)"
    using demo_fit by (simp add: demo_trace)
  have e: "\<exists>ev\<in>set (trace quiet demo_cfg demo_world). is_fit ev"
    by (rule bexI [OF _ f]) (simp add: is_fit_def)
  note t = early_stopping_installed [of quiet demo_cfg demo_world]
  from t e have 3: "NewEarlyStopping 3 True \<in> set (before is_fit (trace quiet demo_cfg demo_world))"
    by (elim conjE) (erule mp)
  from t demo_completes have 4: "filter is_fit (trace quiet demo_cfg demo_world) =
     [Fit (the_model demo_cfg demo_world) (train_set demo_cfg demo_world) (EPOCHS demo_cfg)
        (valid_set demo_cfg demo_world) [EarlyStopping 3 True, wandb_callback]]"
    by (elim conjE) (erule mp)
  from demo_completes f 3 4 show ?thesis by (simp only: n)
qed


lemma steps_log_not: "(\<And>d. \<not> P (WandbLog d)) \<Longrightarrow> x \<in> set (steps_log ss) \<Longrightarrow> \<not> P x"
  by (auto dest: steps_log_log)

lemma before_make_dataset_full_run:
  "before is_make_dataset (full_run cfg w) =
     startup_events cfg w @ loading_events cfg w @ tokenizer_events cfg w"
  by (simp add: before_def full_run_def phase_defs is_make_dataset_def)

lemma before_adapt_full_run:
  "before is_adapt (full_run cfg w) =
     startup_events cfg w @ loading_events cfg w @ [NewTextVectorization (new_tokenizer cfg)]"
  by (simp add: before_def full_run_def phase_defs is_adapt_def)

lemma before_split_full_run:
  "before (\<lambda>ev. is_split ev \<or> is_make_dataset ev) (full_run cfg w) =
     startup_events cfg w @ loading_events cfg w @
     [NewTextVectorization (new_tokenizer cfg), Adapt (new_tokenizer cfg) (corpus cfg w),
      GetVocabulary (fitted_tokenizer cfg w)]"
  by (simp add: before_def full_run_def phase_defs is_split_def is_make_dataset_def)

section \<open>The tokenizer and the vocabulary size\<close>

text \<open>
  Claim C1. The tokenizer is adapted at most once in any run and exactly once in a run
  that completes, on the text corpus that was loaded: the corpus file is read before
  the adaptation, and every construction of a dataset comes after it. The decoder block
  is built with \<^verbatim>\<open>vocab_size\<close> equal to the length of the vocabulary of the adapted
  tokenizer.
\<close>

theorem tokenizer_adapted_once:
  "length (filter is_adapt (trace flt cfg w)) \<le> 1 \<and>
   (outcome flt cfg w = Inr () \<longrightarrow>
      filter is_adapt (trace flt cfg w) = [Adapt (new_tokenizer cfg) (corpus cfg w)]) \<and>
   ((\<exists>ev\<in>set (trace flt cfg w). is_adapt ev) \<longrightarrow>
      JsonLoad (text_data_json_path cfg) \<in> set (before is_adapt (trace flt cfg w))) \<and>
   ((\<exists>ev\<in>set (trace flt cfg w). is_make_dataset ev) \<longrightarrow>
      Adapt (new_tokenizer cfg) (corpus cfg w)
        \<in> set (before is_make_dataset (trace flt cfg w))) \<and>
   (\<forall>e f h v. NewDecoder e f h v \<in> set (trace flt cfg w) \<longrightarrow>
      v = len (get_vocabulary w ((new_tokenizer cfg)\<lparr>adapted := Some (corpus cfg w)\<rparr>)))"
proof -
  have a: "filter is_adapt (full_run cfg w) = [Adapt (new_tokenizer cfg) (corpus cfg w)]"
    by (simp add: full_run_def phase_defs is_adapt_def filter_steps_log)
  have "prefix (filter is_adapt (trace flt cfg w)) (filter is_adapt (full_run cfg w))"
    by (rule filter_mono_prefix [OF trace_prefix])
  then have "length (filter is_adapt (trace flt cfg w)) \<le> length (filter is_adapt (full_run cfg w))"
    by (rule prefix_length_le)
  then have c1: "length (filter is_adapt (trace flt cfg w)) \<le> 1"
    by (simp only: a) simp
  have c2: "outcome flt cfg w = Inr () \<longrightarrow>
      filter is_adapt (trace flt cfg w) = [Adapt (new_tokenizer cfg) (corpus cfg w)]"
  proof
    assume "outcome flt cfg w = Inr ()"
    then have "trace flt cfg w = full_run cfg w" by (rule trace_complete)
    with a show "filter is_adapt (trace flt cfg w) = [Adapt (new_tokenizer cfg) (corpus cfg w)]"
      by simp
  qed
  have c3: "(\<exists>ev\<in>set (trace flt cfg w). is_adapt ev) \<longrightarrow>
      JsonLoad (text_data_json_path cfg) \<in> set (before is_adapt (trace flt cfg w))"
  proof
    assume "\<exists>ev\<in>set (trace flt cfg w). is_adapt ev"
    then have "before is_adapt (trace flt cfg w) = before is_adapt (full_run cfg w)"
      by (rule before_trace)
    then show "JsonLoad (text_data_json_path cfg) \<in> set (before is_adapt (trace flt cfg w))"
      by (simp add: before_adapt_full_run loading_events_def)
  qed
  have c4: "(\<exists>ev\<in>set (trace flt cfg w). is_make_dataset ev) \<longrightarrow>
      Adapt (new_tokenizer cfg) (corpus cfg w)
        \<in> set (before is_make_dataset (trace flt cfg w))"
  proof
    assume "\<exists>ev\<in>set (trace flt cfg w). is_make_dataset ev"
    then have "before is_make_dataset (trace flt cfg w) = before is_make_dataset (full_run cfg w)"
      by (rule before_trace)
    then show "Adapt (new_tokenizer cfg) (corpus cfg w)
        \<in> set (before is_make_dataset (trace flt cfg w))"
      by (simp add: before_make_dataset_full_run tokenizer_events_def)
  qed
  have c5: "\<forall>e f h v. NewDecoder e f h v \<in> set (trace flt cfg w) \<longrightarrow>
      v = len (get_vocabulary w ((new_tokenizer cfg)\<lparr>adapted := Some (corpus cfg w)\<rparr>))"
  proof (intro allI impI)
    fix e f h v
    assume "NewDecoder e f h v \<in> set (trace flt cfg w)"
    then have "NewDecoder e f h v \<in> set (full_run cfg w)" by (rule in_trace)
    then show "v = len (get_vocabulary w ((new_tokenizer cfg)\<lparr>adapted := Some (corpus cfg w)\<rparr>))"
      by (auto simp: full_run_def phase_defs vocab_size_def fitted_tokenizer_def
          dest: steps_log_log split: if_splits)
  qed
  show ?thesis by (intro conjI c1 c2 c3 c4 c5)
qed

lemma demo_in_trace: "ev \<in> set (full_run demo_cfg demo_world) \<Longrightarrow>
    ev \<in> set (trace quiet demo_cfg demo_world)"
  by (simp add: demo_trace)

theorem tokenizer_adapted_once_witness:
  "outcome quiet demo_cfg demo_world = Inr () \<and>
   filter is_adapt (trace quiet demo_cfg demo_world) =
     [Adapt (new_tokenizer demo_cfg) (PList [PStr ''a cat'', PStr ''a dog''])] \<and>
   JsonLoad ''text.json'' \<in> set (before is_adapt (trace quiet demo_cfg demo_world)) \<and>
   Adapt (new_tokenizer demo_cfg) (PList [PStr ''a cat'', PStr ''a dog''])
     \<in> set (before is_make_dataset (trace quiet demo_cfg demo_world)) \<and>
   NewDecoder 512 1024 6 5 \<in> set (trace quiet demo_cfg demo_world)"
proof -
  have c: "corpus demo_cfg demo_world = PList [PStr ''a cat'', PStr ''a dog'']"
    "text_data_json_path demo_cfg = ''text.json''"
    by (simp_all add: corpus_def demo_defs)
  have d: "NewDecoder 512 1024 6 5 \<in> set (trace quiet demo_cfg demo_world)"
    by (rule demo_in_trace)
       (simp add: full_run_def model_events_def vocab_size_def demo_defs len_def)
  have m: "MakeDataset (train_set demo_cfg demo_world) \<in> set (trace quiet demo_cfg demo_world)"
    by (rule demo_in_trace) (simp add: full_run_def dataset_events_def)
  have em: "\<exists>ev\<in>set (trace quiet demo_cfg demo_world). is_make_dataset ev"
    by (rule bexI [OF _ m]) (simp add: is_make_dataset_def)
  note t = tokenizer_adapted_once [of quiet demo_cfg demo_world]
  from t demo_completes have 2: "filter is_adapt (trace quiet demo_cfg demo_world) =
      [Adapt (new_tokenizer demo_cfg) (corpus demo_cfg demo_world)]"
    by (elim conjE) (erule mp)
  then have "Adapt (new_tokenizer demo_cfg) (corpus demo_cfg demo_world)
      \<in> set (filter is_adapt (trace quiet demo_cfg demo_world))"
    by simp
  then have ea: "\<exists>ev\<in>set (trace quiet demo_cfg demo_world). is_adapt ev"
    by auto
  from t ea have 3: "JsonLoad (text_data_json_path demo_cfg)
      \<in> set (before is_adapt (trace quiet demo_cfg demo_world))"
    by (elim conjE) (erule mp)
  from t em have 4: "Adapt (new_tokenizer demo_cfg) (corpus demo_cfg demo_world)
        \<in> set (before is_make_dataset (trace quiet demo_cfg demo_world))"
    by (elim conjE) (erule mp)
  from demo_completes 2 3 4 d show ?thesis by (simp only: c)
qed


section \<open>The validation dataset\<close>





text \<open>
  In the small run, with \<^verbatim>\<open>TEST_SET\<close> switched off: the validation file holds two
  images, the split holds one of them out, and the validation dataset holds the other.
\<close>

lemma no_test_ok: "run_ok no_test_cfg demo_world"
  by (simp add: run_ok_def the_steps_def no_test_cfg_def demo_defs batch_payload_def
      epoch_payload_def py_getitem_def)





section \<open>The vocabulary size that is written\<close>

lemma len_spec_vocabulary:
  "0 \<le> max_tokens t \<Longrightarrow> adapted t = Some c \<Longrightarrow>
   len (spec_vocabulary rsv std t) = min (max_tokens t) (len rsv + len (unique_tokens std c))"
proof -
  assume m: "0 \<le> max_tokens t" and a: "adapted t = Some c"
  have "int (min (length (rsv @ unique_tokens std c)) (nat (max_tokens t))) =
      min (max_tokens t) (int (length rsv) + int (length (unique_tokens std c)))"
    using m by (simp add: min_def) linarith
  with a show ?thesis
    by (simp add: spec_vocabulary_def len_def)
qed

text \<open>
  Claim C3, as the code has it. The configuration written to \<^verbatim>\<open>config_train.json\<close>
  has, under \<^verbatim>\<open>VOCAB_SIZE\<close>, the length of the vocabulary of the tokenizer adapted on
  the text corpus. The tokenizer is created with \<^verbatim>\<open>max_tokens=MAX_VOCAB_SIZE\<close>: with a
  vocabulary as the specification describes it, the value written is the number of
  reserved tokens plus the number of unique tokens of the standardized corpus where
  that does not exceed \<^verbatim>\<open>MAX_VOCAB_SIZE\<close>, and \<^verbatim>\<open>MAX_VOCAB_SIZE\<close> otherwise. The
  vocabulary is read once, from the adapted tokenizer, before the validation/test split
  and before any dataset is built; nothing later changes the value.
\<close>

theorem config_vocab_size:
  assumes "get_vocabulary w ((new_tokenizer cfg)\<lparr>adapted := Some (corpus cfg w)\<rparr>) =
      spec_vocabulary rsv std ((new_tokenizer cfg)\<lparr>adapted := Some (corpus cfg w)\<rparr>)"
    and "0 \<le> MAX_VOCAB_SIZE cfg"
  shows
  "json_field (config_train cfg w) ''VOCAB_SIZE'' =
     Some (PInt (len (get_vocabulary w ((new_tokenizer cfg)\<lparr>adapted := Some (corpus cfg w)\<rparr>)))) \<and>
   json_field (config_train cfg w) ''VOCAB_SIZE'' =
     Some (PInt (min (MAX_VOCAB_SIZE cfg)
                   (len rsv + len (unique_tokens std (corpus cfg w))))) \<and>
   (\<forall>v. JsonDump v (SAVE_DIR cfg @ ''config_train.json'') \<in> set (trace flt cfg w) \<longrightarrow>
      v = config_train cfg w) \<and>
   (outcome flt cfg w = Inr () \<longrightarrow>
      JsonDump (config_train cfg w) (SAVE_DIR cfg @ ''config_train.json'')
        \<in> set (trace flt cfg w)) \<and>
   (\<forall>t. GetVocabulary t \<in> set (trace flt cfg w) \<longrightarrow>
      t = (new_tokenizer cfg)\<lparr>adapted := Some (corpus cfg w)\<rparr>) \<and>
   ((\<exists>ev\<in>set (trace flt cfg w). is_split ev \<or> is_make_dataset ev) \<longrightarrow>
      GetVocabulary ((new_tokenizer cfg)\<lparr>adapted := Some (corpus cfg w)\<rparr>)
        \<in> set (before (\<lambda>ev. is_split ev \<or> is_make_dataset ev) (trace flt cfg w)))"
proof -
  have c1: "json_field (config_train cfg w) ''VOCAB_SIZE'' =
     Some (PInt (len (get_vocabulary w ((new_tokenizer cfg)\<lparr>adapted := Some (corpus cfg w)\<rparr>))))"
    by (simp add: json_field_def config_train_def vocab_size_def fitted_tokenizer_def)
  have c2: "\<forall>v. JsonDump v (SAVE_DIR cfg @ ''config_train.json'') \<in> set (trace flt cfg w) \<longrightarrow>
      v = config_train cfg w"
  proof (intro allI impI)
    fix v
    assume "JsonDump v (SAVE_DIR cfg @ ''config_train.json'') \<in> set (trace flt cfg w)"
    then have "JsonDump v (SAVE_DIR cfg @ ''config_train.json'') \<in> set (full_run cfg w)"
      by (rule in_trace)
    then show "v = config_train cfg w"
      by (auto simp: full_run_def phase_defs dest: steps_log_log split: if_splits)
  qed
  have c3: "outcome flt cfg w = Inr () \<longrightarrow>
      JsonDump (config_train cfg w) (SAVE_DIR cfg @ ''config_train.json'')
        \<in> set (trace flt cfg w)"
  proof
    assume "outcome flt cfg w = Inr ()"
    then have t: "trace flt cfg w = full_run cfg w" by (rule trace_complete)
    show "JsonDump (config_train cfg w) (SAVE_DIR cfg @ ''config_train.json'')
        \<in> set (trace flt cfg w)"
      unfolding t by (simp add: full_run_def persistence_events_def)
  qed
  have c4: "\<forall>t. GetVocabulary t \<in> set (trace flt cfg w) \<longrightarrow>
      t = (new_tokenizer cfg)\<lparr>adapted := Some (corpus cfg w)\<rparr>"
  proof (intro allI impI)
    fix t
    assume "GetVocabulary t \<in> set (trace flt cfg w)"
    then have "GetVocabulary t \<in> set (full_run cfg w)" by (rule in_trace)
    then show "t = (new_tokenizer cfg)\<lparr>adapted := Some (corpus cfg w)\<rparr>"
      by (auto simp: full_run_def phase_defs fitted_tokenizer_def
          dest: steps_log_log split: if_splits)
  qed
  have c5: "(\<exists>ev\<in>set (trace flt cfg w). is_split ev \<or> is_make_dataset ev) \<longrightarrow>
      GetVocabulary ((new_tokenizer cfg)\<lparr>adapted := Some (corpus cfg w)\<rparr>)
        \<in> set (before (\<lambda>ev. is_split ev \<or> is_make_dataset ev) (trace flt cfg w))"
  proof
    assume "\<exists>ev\<in>set (trace flt cfg w). is_split ev \<or> is_make_dataset ev"
    then have "before (\<lambda>ev. is_split ev \<or> is_make_dataset ev) (trace flt cfg w) =
        before (\<lambda>ev. is_split ev \<or> is_make_dataset ev) (full_run cfg w)"
      by (rule before_trace)
    then show "GetVocabulary ((new_tokenizer cfg)\<lparr>adapted := Some (corpus cfg w)\<rparr>)
        \<in> set (before (\<lambda>ev. is_split ev \<or> is_make_dataset ev) (trace flt cfg w))"
      by (simp add: before_split_full_run fitted_tokenizer_def)
  qed
  have "len (spec_vocabulary rsv std ((new_tokenizer cfg)\<lparr>adapted := Some (corpus cfg w)\<rparr>)) =
      min (MAX_VOCAB_SIZE cfg) (len rsv + len (unique_tokens std (corpus cfg w)))"
    using assms(2) by (simp add: len_spec_vocabulary new_tokenizer_def)
  with c1 assms(1) have c0: "json_field (config_train cfg w) ''VOCAB_SIZE'' =
     Some (PInt (min (MAX_VOCAB_SIZE cfg)
                   (len rsv + len (unique_tokens std (corpus cfg w)))))"
    by simp
  show ?thesis by (intro conjI c1 c0 c2 c3 c4 c5)
qed

text \<open>
  In the small run the corpus has three unique tokens; with the two reserved tokens the
  vocabulary has five entries, and 5 is written.
\<close>

lemma spec_ok: "run_ok demo_cfg spec_world"
  by (simp add: run_ok_def the_steps_def spec_world_def demo_defs batch_payload_def
      epoch_payload_def py_getitem_def)

lemma demo_unique_tokens:
  "unique_tokens demo_standardize (PList [PStr ''a cat'', PStr ''a dog'']) =
     [''cat'', ''a'', ''dog'']"
  by (simp add: unique_tokens_def captions_of_def demo_standardize_def isspace_def)

theorem config_vocab_size_witness:
  "get_vocabulary spec_world
      ((new_tokenizer demo_cfg)\<lparr>adapted := Some (PList [PStr ''a cat'', PStr ''a dog''])\<rparr>) =
     spec_vocabulary demo_reserved demo_standardize
      ((new_tokenizer demo_cfg)\<lparr>adapted := Some (PList [PStr ''a cat'', PStr ''a dog''])\<rparr>) \<and>
   0 \<le> MAX_VOCAB_SIZE demo_cfg \<and>
   outcome quiet demo_cfg spec_world = Inr () \<and>
   JsonDump (config_train demo_cfg spec_world) ''save/config_train.json''
     \<in> set (trace quiet demo_cfg spec_world) \<and>
   json_field (config_train demo_cfg spec_world) ''VOCAB_SIZE'' = Some (PInt 5) \<and>
   GetVocabulary ((new_tokenizer demo_cfg)\<lparr>adapted := Some (PList [PStr ''a cat'', PStr ''a dog''])\<rparr>)
     \<in> set (before (\<lambda>ev. is_split ev \<or> is_make_dataset ev) (trace quiet demo_cfg spec_world))"
proof -
  let ?t = "(new_tokenizer demo_cfg)\<lparr>adapted := Some (PList [PStr ''a cat'', PStr ''a dog''])\<rparr>"
  have c: "corpus demo_cfg spec_world = PList [PStr ''a cat'', PStr ''a dog'']"
    by (simp add: corpus_def spec_world_def demo_defs)
  have p: "SAVE_DIR demo_cfg @ ''config_train.json'' = ''save/config_train.json''"
    by (simp add: demo_cfg_def)
  have g: "get_vocabulary spec_world ?t = spec_vocabulary demo_reserved demo_standardize ?t"
    by (simp add: spec_world_def)
  have mx: "0 \<le> MAX_VOCAB_SIZE demo_cfg" "MAX_VOCAB_SIZE demo_cfg = 2000000"
    by (simp_all add: demo_cfg_def)
  have n: "min (MAX_VOCAB_SIZE demo_cfg)
      (len demo_reserved + len (unique_tokens demo_standardize (PList [PStr ''a cat'', PStr ''a dog''])))
      = 5"
    by (simp add: demo_unique_tokens demo_reserved_def len_def mx(2))
  have o: "outcome quiet demo_cfg spec_world = Inr ()"
    by (rule quiet_completes [OF spec_ok])
  have tr: "trace quiet demo_cfg spec_world = full_run demo_cfg spec_world"
    by (rule trace_complete [OF o])
  have m: "MakeDataset (train_set demo_cfg spec_world) \<in> set (trace quiet demo_cfg spec_world)"
    unfolding tr by (simp add: full_run_def dataset_events_def)
  have em: "\<exists>ev\<in>set (trace quiet demo_cfg spec_world). is_split ev \<or> is_make_dataset ev"
    by (rule bexI [OF _ m]) (simp add: is_make_dataset_def)
  from g have a: "get_vocabulary spec_world
      ((new_tokenizer demo_cfg)\<lparr>adapted := Some (corpus demo_cfg spec_world)\<rparr>) =
     spec_vocabulary demo_reserved demo_standardize
      ((new_tokenizer demo_cfg)\<lparr>adapted := Some (corpus demo_cfg spec_world)\<rparr>)"
    by (simp only: c)
  note t = config_vocab_size [of spec_world demo_cfg demo_reserved demo_standardize quiet,
      OF a mx(1)]
  from t have 1: "json_field (config_train demo_cfg spec_world) ''VOCAB_SIZE'' =
     Some (PInt (min (MAX_VOCAB_SIZE demo_cfg)
       (len demo_reserved + len (unique_tokens demo_standardize (corpus demo_cfg spec_world)))))"
    by (elim conjE)
  then have 1: "json_field (config_train demo_cfg spec_world) ''VOCAB_SIZE'' = Some (PInt 5)"
    by (simp only: c n)
  from t o have 3:
    "JsonDump (config_train demo_cfg spec_world) (SAVE_DIR demo_cfg @ ''config_train.json'')
        \<in> set (trace quiet demo_cfg spec_world)"
    by (elim conjE) (erule mp)
  from t em have 5:
    "GetVocabulary ((new_tokenizer demo_cfg)\<lparr>adapted := Some (corpus demo_cfg spec_world)\<rparr>)
        \<in> set (before (\<lambda>ev. is_split ev \<or> is_make_dataset ev) (trace quiet demo_cfg spec_world))"
    by (elim conjE) (erule mp)
  from g mx(1) o 1 3 5 show ?thesis by (simp only: p c)
qed

text \<open>
  The claim as it is written has the number of unique tokens plus the reserved tokens
  written, whatever the maximum. With a maximum of three entries the same corpus, of
  three unique tokens, and the two reserved tokens give a vocabulary of three entries,
  and 3 is written, not 5.
\<close>

lemma capped_ok: "run_ok capped_cfg spec_world"
  by (simp add: run_ok_def the_steps_def capped_cfg_def spec_world_def demo_defs
      batch_payload_def epoch_payload_def py_getitem_def)

theorem vocab_size_capped_counterexample:
  "outcome quiet capped_cfg spec_world = Inr () \<and>
   corpus capped_cfg spec_world = PList [PStr ''a cat'', PStr ''a dog''] \<and>
   get_vocabulary spec_world (fitted_tokenizer capped_cfg spec_world) = [[], ''[UNK]'', ''cat''] \<and>
   JsonDump (config_train capped_cfg spec_world) ''save/config_train.json''
     \<in> set (trace quiet capped_cfg spec_world) \<and>
   json_field (config_train capped_cfg spec_world) ''VOCAB_SIZE'' = Some (PInt 3) \<and>
   len demo_reserved + len (unique_tokens demo_standardize (corpus capped_cfg spec_world)) = 5"
proof -
  have c: "corpus capped_cfg spec_world = PList [PStr ''a cat'', PStr ''a dog'']"
    by (simp add: corpus_def spec_world_def demo_defs)
  have p: "SAVE_DIR capped_cfg @ ''config_train.json'' = ''save/config_train.json''"
    by (simp add: capped_cfg_def demo_cfg_def)
  have o: "outcome quiet capped_cfg spec_world = Inr ()"
    by (rule quiet_completes [OF capped_ok])
  have tr: "trace quiet capped_cfg spec_world = full_run capped_cfg spec_world"
    by (rule trace_complete [OF o])
  have mx: "max_tokens (fitted_tokenizer capped_cfg spec_world) = 3"
    "adapted (fitted_tokenizer capped_cfg spec_world) = Some (PList [PStr ''a cat'', PStr ''a dog''])"
    by (simp_all add: fitted_tokenizer_def new_tokenizer_def c) (simp add: capped_cfg_def)
  have gv: "get_vocabulary spec_world = spec_vocabulary demo_reserved demo_standardize"
    by (simp add: spec_world_def)
  have g: "get_vocabulary spec_world (fitted_tokenizer capped_cfg spec_world) =
      [[], ''[UNK]'', ''cat'']"
    by (simp only: gv) (simp add: spec_vocabulary_def mx demo_unique_tokens demo_reserved_def)
  have 1: "json_field (config_train capped_cfg spec_world) ''VOCAB_SIZE'' = Some (PInt 3)"
    by (simp add: json_field_def config_train_def vocab_size_def g len_def)
  have 2: "JsonDump (config_train capped_cfg spec_world)
      (SAVE_DIR capped_cfg @ ''config_train.json'') \<in> set (trace quiet capped_cfg spec_world)"
    unfolding tr by (simp add: full_run_def persistence_events_def)
  have 3: "len demo_reserved +
      len (unique_tokens demo_standardize (PList [PStr ''a cat'', PStr ''a dog''])) = 5"
    by (simp add: demo_unique_tokens demo_reserved_def len_def)
  from o c g 1 2 3 show ?thesis by (simp only: p c)
qed


lemma steps_log_plain:
  assumes "x \<in> set (steps_log ss)"
  shows "\<not> is_persist x" "\<not> is_evaluate x" "\<not> is_fit x" "x \<noteq> RunFinish"
  using steps_log_log [OF assms]
  by (auto simp: is_persist_def is_evaluate_def is_fit_def)

lemma before_append:
  "\<forall>x\<in>set xs. \<not> P x \<Longrightarrow> before P (xs @ ys) = xs @ before P ys"
  by (simp add: before_def takeWhile_append2)

lemma from_first_append:
  "\<forall>x\<in>set xs. \<not> P x \<Longrightarrow> from_first P (xs @ ys) = from_first P ys"
  by (simp add: from_first_def dropWhile_append2)

lemma before_persist_full_run:
  "before is_persist (full_run cfg w) =
     startup_events cfg w @ loading_events cfg w @ tokenizer_events cfg w @
     dataset_events cfg w @ model_events cfg w @ fit_events cfg w @ evaluation_events cfg w"
proof -
  have a: "\<forall>x\<in>set (startup_events cfg w @ loading_events cfg w @ tokenizer_events cfg w @
     dataset_events cfg w @ model_events cfg w @ fit_events cfg w @ evaluation_events cfg w).
     \<not> is_persist x"
    by (auto simp: phase_defs is_persist_def dest: steps_log_plain)
  have b: "full_run cfg w =
     (startup_events cfg w @ loading_events cfg w @ tokenizer_events cfg w @
      dataset_events cfg w @ model_events cfg w @ fit_events cfg w @ evaluation_events cfg w)
     @ (persistence_events cfg w @ [RunFinish])"
    by (simp add: full_run_def)
  show ?thesis
    by (simp only: b before_append [OF a])
       (simp add: before_def persistence_events_def is_persist_def)
qed

lemma from_first_persist_full_run:
  "from_first is_persist (full_run cfg w) = persistence_events cfg w @ [RunFinish]"
proof -
  have a: "\<forall>x\<in>set (startup_events cfg w @ loading_events cfg w @ tokenizer_events cfg w @
     dataset_events cfg w @ model_events cfg w @ fit_events cfg w @ evaluation_events cfg w).
     \<not> is_persist x"
    by (auto simp: phase_defs is_persist_def dest: steps_log_plain)
  have b: "full_run cfg w =
     (startup_events cfg w @ loading_events cfg w @ tokenizer_events cfg w @
      dataset_events cfg w @ model_events cfg w @ fit_events cfg w @ evaluation_events cfg w)
     @ (persistence_events cfg w @ [RunFinish])"
    by (simp add: full_run_def)
  show ?thesis
    by (simp only: b from_first_append [OF a])
       (simp add: from_first_def persistence_events_def is_persist_def)
qed

lemma filter_persist_full_run:
  "filter is_persist (full_run cfg w) = persistence_events cfg w"
  by (simp add: full_run_def phase_defs is_persist_def filter_steps_log)

section \<open>Persistence\<close>

text \<open>
  Claim C5. The artifacts are written after the evaluation and in this order: the
  history to \<^verbatim>\<open>history.json\<close>; the weights to the checkpoint file, which is then handed
  to the tracker; the configuration to \<^verbatim>\<open>config_train.json\<close>; the tokenizer through
  \<^verbatim>\<open>save_tokenizer\<close>. In any run the writes made are an initial part of this list, and
  all of it in a run that completes; from the first write on, the script only writes
  and then finishes the tracker run, so no fit and no evaluation follows a write, and where
  anything is written the definitive evaluations precede the first write. Every
  path is the configured save directory, followed by a file name for the three files.
\<close>

theorem persistence_order:
  "prefix (filter is_persist (trace flt cfg w))
     [OpenWrite (SAVE_DIR cfg @ ''history.json''),
      JsonDump (fit_history w (train_set cfg w) (EPOCHS cfg) (valid_set cfg w))
        (SAVE_DIR cfg @ ''history.json''),
      SaveWeights (the_model cfg w) (SAVE_DIR cfg @ ''big_model_weights_coco.weights.h5''),
      RunSave (SAVE_DIR cfg @ ''big_model_weights_coco.weights.h5''),
      OpenWrite (SAVE_DIR cfg @ ''config_train.json''),
      JsonDump (config_train cfg w) (SAVE_DIR cfg @ ''config_train.json''),
      SaveTokenizer (fitted_tokenizer cfg w) (SAVE_DIR cfg)] \<and>
   (outcome flt cfg w = Inr () \<longrightarrow>
      filter is_persist (trace flt cfg w) =
        [OpenWrite (SAVE_DIR cfg @ ''history.json''),
         JsonDump (fit_history w (train_set cfg w) (EPOCHS cfg) (valid_set cfg w))
           (SAVE_DIR cfg @ ''history.json''),
         SaveWeights (the_model cfg w) (SAVE_DIR cfg @ ''big_model_weights_coco.weights.h5''),
         RunSave (SAVE_DIR cfg @ ''big_model_weights_coco.weights.h5''),
         OpenWrite (SAVE_DIR cfg @ ''config_train.json''),
         JsonDump (config_train cfg w) (SAVE_DIR cfg @ ''config_train.json''),
         SaveTokenizer (fitted_tokenizer cfg w) (SAVE_DIR cfg)]) \<and>
   (\<forall>ev\<in>set (from_first is_persist (trace flt cfg w)).
      (is_persist ev \<or> ev = RunFinish) \<and> \<not> is_evaluate ev \<and> \<not> is_fit ev) \<and>
   ((\<exists>ev\<in>set (trace flt cfg w). is_persist ev) \<longrightarrow>
      Evaluate (the_model cfg w) (train_set cfg w) (BATCH_SIZE cfg)
        \<in> set (before is_persist (trace flt cfg w)) \<and>
      Evaluate (the_model cfg w) (valid_set cfg w) (BATCH_SIZE cfg)
        \<in> set (before is_persist (trace flt cfg w)) \<and>
      (TEST_SET cfg \<longrightarrow>
         Evaluate (the_model cfg w) (test_set cfg w) (BATCH_SIZE cfg)
           \<in> set (before is_persist (trace flt cfg w))))"
proof -
  have p: "prefix (filter is_persist (trace flt cfg w)) (persistence_events cfg w)"
    using filter_mono_prefix [OF trace_prefix [of flt cfg w], of is_persist]
    by (simp only: filter_persist_full_run)
  have c2: "outcome flt cfg w = Inr () \<longrightarrow>
      filter is_persist (trace flt cfg w) = persistence_events cfg w"
  proof
    assume "outcome flt cfg w = Inr ()"
    then have "trace flt cfg w = full_run cfg w" by (rule trace_complete)
    then show "filter is_persist (trace flt cfg w) = persistence_events cfg w"
      by (simp only: filter_persist_full_run)
  qed
  have c3: "\<forall>ev\<in>set (from_first is_persist (trace flt cfg w)).
      (is_persist ev \<or> ev = RunFinish) \<and> \<not> is_evaluate ev \<and> \<not> is_fit ev"
  proof
    fix ev
    assume "ev \<in> set (from_first is_persist (trace flt cfg w))"
    with set_mono_prefix [OF from_first_prefix [OF trace_prefix [of flt cfg w], of is_persist]]
    have "ev \<in> set (from_first is_persist (full_run cfg w))" by blast
    then show "(is_persist ev \<or> ev = RunFinish) \<and> \<not> is_evaluate ev \<and> \<not> is_fit ev"
      by (auto simp: from_first_persist_full_run persistence_events_def is_persist_def
          is_evaluate_def is_fit_def)
  qed
  have c4: "(\<exists>ev\<in>set (trace flt cfg w). is_persist ev) \<longrightarrow>
      Evaluate (the_model cfg w) (train_set cfg w) (BATCH_SIZE cfg)
        \<in> set (before is_persist (trace flt cfg w)) \<and>
      Evaluate (the_model cfg w) (valid_set cfg w) (BATCH_SIZE cfg)
        \<in> set (before is_persist (trace flt cfg w)) \<and>
      (TEST_SET cfg \<longrightarrow>
         Evaluate (the_model cfg w) (test_set cfg w) (BATCH_SIZE cfg)
           \<in> set (before is_persist (trace flt cfg w)))"
  proof
    assume "\<exists>ev\<in>set (trace flt cfg w). is_persist ev"
    then have t: "before is_persist (trace flt cfg w) = before is_persist (full_run cfg w)"
      by (rule before_trace)
    show "Evaluate (the_model cfg w) (train_set cfg w) (BATCH_SIZE cfg)
        \<in> set (before is_persist (trace flt cfg w)) \<and>
      Evaluate (the_model cfg w) (valid_set cfg w) (BATCH_SIZE cfg)
        \<in> set (before is_persist (trace flt cfg w)) \<and>
      (TEST_SET cfg \<longrightarrow>
         Evaluate (the_model cfg w) (test_set cfg w) (BATCH_SIZE cfg)
           \<in> set (before is_persist (trace flt cfg w)))"
      unfolding t before_persist_full_run by (simp add: evaluation_events_def)
  qed
  from p c2 c3 c4 show ?thesis
    unfolding persistence_events_def by (intro conjI)
qed

theorem persistence_order_witness:
  "outcome quiet demo_cfg demo_world = Inr () \<and>
   filter is_persist (trace quiet demo_cfg demo_world) =
     [OpenWrite ''save/history.json'',
      JsonDump (PDict [(''loss'', PList [PFloat (1 / 2)])]) ''save/history.json'',
      SaveWeights (the_model demo_cfg demo_world) ''save/big_model_weights_coco.weights.h5'',
      RunSave ''save/big_model_weights_coco.weights.h5'',
      OpenWrite ''save/config_train.json'',
      JsonDump (config_train demo_cfg demo_world) ''save/config_train.json'',
      SaveTokenizer (fitted_tokenizer demo_cfg demo_world) ''save/''] \<and>
   Evaluate (the_model demo_cfg demo_world) (valid_set demo_cfg demo_world) 64
     \<in> set (before is_persist (trace quiet demo_cfg demo_world)) \<and>
   Evaluate (the_model demo_cfg demo_world) (test_set demo_cfg demo_world) 64
     \<in> set (before is_persist (trace quiet demo_cfg demo_world)) \<and>
   RunFinish \<in> set (from_first is_persist (trace quiet demo_cfg demo_world)) \<and>
   \<not> is_evaluate RunFinish"
proof -
  have c: "SAVE_DIR demo_cfg = ''save/''" "BATCH_SIZE demo_cfg = 64"
    "fit_history demo_world (train_set demo_cfg demo_world) (EPOCHS demo_cfg)
       (valid_set demo_cfg demo_world) = PDict [(''loss'', PList [PFloat (1 / 2)])]"
    by (simp_all add: demo_defs)
  have f: "RunFinish \<in> set (from_first is_persist (trace quiet demo_cfg demo_world))"
    by (simp add: demo_trace from_first_persist_full_run)
  note t = persistence_order [of quiet demo_cfg demo_world]
  from t demo_completes have 2: "filter is_persist (trace quiet demo_cfg demo_world) =
        [OpenWrite (SAVE_DIR demo_cfg @ ''history.json''),
         JsonDump (fit_history demo_world (train_set demo_cfg demo_world) (EPOCHS demo_cfg)
            (valid_set demo_cfg demo_world))
           (SAVE_DIR demo_cfg @ ''history.json''),
         SaveWeights (the_model demo_cfg demo_world)
           (SAVE_DIR demo_cfg @ ''big_model_weights_coco.weights.h5''),
         RunSave (SAVE_DIR demo_cfg @ ''big_model_weights_coco.weights.h5''),
         OpenWrite (SAVE_DIR demo_cfg @ ''config_train.json''),
         JsonDump (config_train demo_cfg demo_world) (SAVE_DIR demo_cfg @ ''config_train.json''),
         SaveTokenizer (fitted_tokenizer demo_cfg demo_world) (SAVE_DIR demo_cfg)]"
    by (elim conjE) (erule mp)
  have "OpenWrite (SAVE_DIR demo_cfg @ ''history.json'')
      \<in> set (filter is_persist (trace quiet demo_cfg demo_world))"
    by (simp only: 2) simp
  then have ep: "\<exists>ev\<in>set (trace quiet demo_cfg demo_world). is_persist ev"
    by auto
  from t ep have 4:
    "Evaluate (the_model demo_cfg demo_world) (train_set demo_cfg demo_world) (BATCH_SIZE demo_cfg)
        \<in> set (before is_persist (trace quiet demo_cfg demo_world)) \<and>
      Evaluate (the_model demo_cfg demo_world) (valid_set demo_cfg demo_world) (BATCH_SIZE demo_cfg)
        \<in> set (before is_persist (trace quiet demo_cfg demo_world)) \<and>
      (TEST_SET demo_cfg \<longrightarrow>
         Evaluate (the_model demo_cfg demo_world) (test_set demo_cfg demo_world) (BATCH_SIZE demo_cfg)
           \<in> set (before is_persist (trace quiet demo_cfg demo_world)))"
    by (elim conjE) (erule mp)
  have ts: "TEST_SET demo_cfg" by (simp add: demo_cfg_def)
  with 4 have 5:
    "Evaluate (the_model demo_cfg demo_world) (test_set demo_cfg demo_world) (BATCH_SIZE demo_cfg)
           \<in> set (before is_persist (trace quiet demo_cfg demo_world))"
    by simp
  from t f have 3: "\<not> is_evaluate RunFinish"
    by (elim conjE) blast
  from demo_completes 2 4 5 f 3 show ?thesis
    by (simp only: c append.simps) simp
qed


section \<open>The test metrics\<close>

lemmas test_metric_simps = mentions_test_metric_def names_test_metric_def
  test_metric_keys_def sublist_code

lemma steps_log_no_test_metric:
  "ev \<in> set (steps_log ss) \<Longrightarrow> \<not> mentions_test_metric ev"
  by (drule steps_log_log) (auto simp: test_metric_simps)

lemma startup_no_test_metric:
  "\<not> names_test_metric (tf_version w) \<Longrightarrow> ev \<in> set (startup_events cfg w) \<Longrightarrow>
   \<not> mentions_test_metric ev"
  by (auto simp: startup_events_def mentions_test_metric_def)
     (simp_all add: names_test_metric_def test_metric_keys_def sublist_code)

lemma loading_no_test_metric:
  "ev \<in> set (loading_events cfg w) \<Longrightarrow> \<not> mentions_test_metric ev"
  by (auto simp: loading_events_def test_metric_simps split: if_splits)

lemma tokenizer_no_test_metric:
  "ev \<in> set (tokenizer_events cfg w) \<Longrightarrow> \<not> mentions_test_metric ev"
  by (auto simp: tokenizer_events_def test_metric_simps)

lemma dataset_no_test_metric:
  "ev \<in> set (dataset_events cfg w) \<Longrightarrow> \<not> mentions_test_metric ev"
  by (auto simp: dataset_events_def mentions_test_metric_def split: if_splits)

lemma model_no_test_metric:
  "ev \<in> set (model_events cfg w) \<Longrightarrow> \<not> mentions_test_metric ev"
  by (auto simp: model_events_def mentions_test_metric_def)

lemma fit_no_test_metric:
  "ev \<in> set (fit_events cfg w) \<Longrightarrow> \<not> mentions_test_metric ev"
  by (auto simp: fit_events_def mentions_test_metric_def dest: steps_log_no_test_metric)

lemma evaluation_no_test_metric:
  "\<not> TEST_SET cfg \<Longrightarrow> ev \<in> set (evaluation_events cfg w) \<Longrightarrow> \<not> mentions_test_metric ev"
  by (auto simp: evaluation_events_def test_metric_simps)

lemma persistence_no_test_metric:
  "ev \<in> set (persistence_events cfg w) \<Longrightarrow> \<not> mentions_test_metric ev"
  by (auto simp: persistence_events_def mentions_test_metric_def)

lemma full_run_no_test_metric:
  assumes "\<not> TEST_SET cfg" and "\<not> names_test_metric (tf_version w)"
    and "ev \<in> set (full_run cfg w)"
  shows "\<not> mentions_test_metric ev"
proof -
  from assms(3) consider "ev \<in> set (startup_events cfg w)" | "ev \<in> set (loading_events cfg w)"
    | "ev \<in> set (tokenizer_events cfg w)" | "ev \<in> set (dataset_events cfg w)"
    | "ev \<in> set (model_events cfg w)" | "ev \<in> set (fit_events cfg w)"
    | "ev \<in> set (evaluation_events cfg w)" | "ev \<in> set (persistence_events cfg w)"
    | "ev = RunFinish"
    by (auto simp: full_run_def)
  then show ?thesis
  proof cases
    case 1 with assms(2) show ?thesis by (rule startup_no_test_metric)
  next
    case 2 then show ?thesis by (rule loading_no_test_metric)
  next
    case 3 then show ?thesis by (rule tokenizer_no_test_metric)
  next
    case 4 then show ?thesis by (rule dataset_no_test_metric)
  next
    case 5 then show ?thesis by (rule model_no_test_metric)
  next
    case 6 then show ?thesis by (rule fit_no_test_metric)
  next
    case 7 with assms(1) show ?thesis by (rule evaluation_no_test_metric)
  next
    case 8 then show ?thesis by (rule persistence_no_test_metric)
  next
    case 9 then show ?thesis by (simp add: mentions_test_metric_def)
  qed
qed

text \<open>
  Claim C2. With \<^verbatim>\<open>TEST_SET\<close> off, no tracker call of any run has a key, and no printed
  line has a string, in which \<^verbatim>\<open>Test Loss\<close> or \<^verbatim>\<open>Test Accuracy\<close> occurs; the one
  string that the script does not write itself is the version of the framework, which
  is taken not to hold such a name. With \<^verbatim>\<open>TEST_SET\<close> on, a run that completes builds
  the test dataset from the held-out part of the split, evaluates the model on it, sends
  the loss and the accuracy of that evaluation to the tracker under the two test keys,
  and prints them. (The line with the number of test samples is printed whatever the
  flag says; it shows a count and none of the two names.)
\<close>

theorem test_metrics_gated:
  assumes "\<not> names_test_metric (tf_version w)"
  shows
  "(\<not> TEST_SET cfg \<longrightarrow> (\<forall>ev\<in>set (trace flt cfg w). \<not> mentions_test_metric ev)) \<and>
   (TEST_SET cfg \<and> outcome flt cfg w = Inr () \<longrightarrow>
      2 \<le> length (keras_evaluate w (test_set cfg w) (BATCH_SIZE cfg)) \<and>
      MakeDataset (Dataset (keys (snd (valid_test_split w (snd (reduced cfg w)))))
                     (vals (snd (valid_test_split w (snd (reduced cfg w)))))
                     False (fitted_tokenizer cfg w)) \<in> set (trace flt cfg w) \<and>
      Evaluate (the_model cfg w) (test_set cfg w) (BATCH_SIZE cfg) \<in> set (trace flt cfg w) \<and>
      WandbLog [(''Test Loss'', PFloat (keras_evaluate w (test_set cfg w) (BATCH_SIZE cfg) ! 0)),
                (''Test Accuracy'', PFloat (keras_evaluate w (test_set cfg w) (BATCH_SIZE cfg) ! 1))]
        \<in> set (trace flt cfg w) \<and>
      Print [PFormat ''Test Loss = %.4f - Test Accuracy = %.4f''
               [PFloat (keras_evaluate w (test_set cfg w) (BATCH_SIZE cfg) ! 0),
                PFloat (keras_evaluate w (test_set cfg w) (BATCH_SIZE cfg) ! 1)]]
        \<in> set (trace flt cfg w))"
proof -
  have c1: "\<not> TEST_SET cfg \<longrightarrow> (\<forall>ev\<in>set (trace flt cfg w). \<not> mentions_test_metric ev)"
  proof (intro impI ballI)
    fix ev
    assume n: "\<not> TEST_SET cfg" and "ev \<in> set (trace flt cfg w)"
    then have "ev \<in> set (full_run cfg w)" by (simp add: in_trace)
    with n assms show "\<not> mentions_test_metric ev" by (rule full_run_no_test_metric)
  qed
  have c2: "TEST_SET cfg \<and> outcome flt cfg w = Inr () \<longrightarrow>
      2 \<le> length (keras_evaluate w (test_set cfg w) (BATCH_SIZE cfg)) \<and>
      MakeDataset (Dataset (keys (snd (valid_test_split w (snd (reduced cfg w)))))
                     (vals (snd (valid_test_split w (snd (reduced cfg w)))))
                     False (fitted_tokenizer cfg w)) \<in> set (trace flt cfg w) \<and>
      Evaluate (the_model cfg w) (test_set cfg w) (BATCH_SIZE cfg) \<in> set (trace flt cfg w) \<and>
      WandbLog [(''Test Loss'', PFloat (keras_evaluate w (test_set cfg w) (BATCH_SIZE cfg) ! 0)),
                (''Test Accuracy'', PFloat (keras_evaluate w (test_set cfg w) (BATCH_SIZE cfg) ! 1))]
        \<in> set (trace flt cfg w) \<and>
      Print [PFormat ''Test Loss = %.4f - Test Accuracy = %.4f''
               [PFloat (keras_evaluate w (test_set cfg w) (BATCH_SIZE cfg) ! 0),
                PFloat (keras_evaluate w (test_set cfg w) (BATCH_SIZE cfg) ! 1)]]
        \<in> set (trace flt cfg w)"
  proof
    assume a: "TEST_SET cfg \<and> outcome flt cfg w = Inr ()"
    then have t: "trace flt cfg w = full_run cfg w" by (simp add: trace_complete)
    from a completes_ok [of flt cfg w] have "run_ok cfg w" by simp
    with a have l: "2 \<le> length (keras_evaluate w (test_set cfg w) (BATCH_SIZE cfg))"
      by (simp add: run_ok_def)
    have d: "Dataset (keys (snd (valid_test_split w (snd (reduced cfg w)))))
                     (vals (snd (valid_test_split w (snd (reduced cfg w)))))
                     False (fitted_tokenizer cfg w) = test_set cfg w"
      by (simp add: test_set_def split_result_def)
    from a have m: "MakeDataset (test_set cfg w) \<in> set (full_run cfg w)"
      by (simp add: full_run_def dataset_events_def)
    from a have e: "Evaluate (the_model cfg w) (test_set cfg w) (BATCH_SIZE cfg)
        \<in> set (full_run cfg w)"
      by (simp add: full_run_def evaluation_events_def)
    from a have g: "WandbLog
        [(''Test Loss'', PFloat (keras_evaluate w (test_set cfg w) (BATCH_SIZE cfg) ! 0)),
         (''Test Accuracy'', PFloat (keras_evaluate w (test_set cfg w) (BATCH_SIZE cfg) ! 1))]
        \<in> set (full_run cfg w)"
      by (simp add: full_run_def evaluation_events_def)
    from a have p: "Print [PFormat ''Test Loss = %.4f - Test Accuracy = %.4f''
               [PFloat (keras_evaluate w (test_set cfg w) (BATCH_SIZE cfg) ! 0),
                PFloat (keras_evaluate w (test_set cfg w) (BATCH_SIZE cfg) ! 1)]]
        \<in> set (full_run cfg w)"
      by (simp add: full_run_def evaluation_events_def)
    from l m e g p show "2 \<le> length (keras_evaluate w (test_set cfg w) (BATCH_SIZE cfg)) \<and>
      MakeDataset (Dataset (keys (snd (valid_test_split w (snd (reduced cfg w)))))
                     (vals (snd (valid_test_split w (snd (reduced cfg w)))))
                     False (fitted_tokenizer cfg w)) \<in> set (trace flt cfg w) \<and>
      Evaluate (the_model cfg w) (test_set cfg w) (BATCH_SIZE cfg) \<in> set (trace flt cfg w) \<and>
      WandbLog [(''Test Loss'', PFloat (keras_evaluate w (test_set cfg w) (BATCH_SIZE cfg) ! 0)),
                (''Test Accuracy'', PFloat (keras_evaluate w (test_set cfg w) (BATCH_SIZE cfg) ! 1))]
        \<in> set (trace flt cfg w) \<and>
      Print [PFormat ''Test Loss = %.4f - Test Accuracy = %.4f''
               [PFloat (keras_evaluate w (test_set cfg w) (BATCH_SIZE cfg) ! 0),
                PFloat (keras_evaluate w (test_set cfg w) (BATCH_SIZE cfg) ! 1)]]
        \<in> set (trace flt cfg w)"
      by (simp only: t d)
  qed
  show ?thesis by (intro conjI c1 c2)
qed

text \<open>
  The small run without a test set has no event that names a test metric; the small run
  with it has the four events, and the last two name one.
\<close>

lemma demo_version: "\<not> names_test_metric (tf_version demo_world)"
  by (simp add: demo_world_def names_test_metric_def test_metric_keys_def sublist_code)

theorem test_metrics_gated_witness:
  "\<not> names_test_metric (tf_version demo_world) \<and>
   \<not> TEST_SET no_test_cfg \<and>
   outcome quiet no_test_cfg demo_world = Inr () \<and>
   filter mentions_test_metric (trace quiet no_test_cfg demo_world) = [] \<and>
   TEST_SET demo_cfg \<and>
   outcome quiet demo_cfg demo_world = Inr () \<and>
   MakeDataset (Dataset [''img4.jpg''] [PList [PStr ''a dog'']] False
     (fitted_tokenizer demo_cfg demo_world)) \<in> set (trace quiet demo_cfg demo_world) \<and>
   Evaluate (the_model demo_cfg demo_world) (test_set demo_cfg demo_world) 64
     \<in> set (trace quiet demo_cfg demo_world) \<and>
   WandbLog [(''Test Loss'', PFloat (1 / 2)), (''Test Accuracy'', PFloat (1 / 4))]
     \<in> set (trace quiet demo_cfg demo_world) \<and>
   Print [PFormat ''Test Loss = %.4f - Test Accuracy = %.4f'' [PFloat (1 / 2), PFloat (1 / 4)]]
     \<in> set (trace quiet demo_cfg demo_world) \<and>
   mentions_test_metric
     (WandbLog [(''Test Loss'', PFloat (1 / 2)), (''Test Accuracy'', PFloat (1 / 4))]) \<and>
   mentions_test_metric
     (Print [PFormat ''Test Loss = %.4f - Test Accuracy = %.4f'' [PFloat (1 / 2), PFloat (1 / 4)]])"
proof -
  have n: "\<not> TEST_SET no_test_cfg" and y: "TEST_SET demo_cfg"
    by (simp_all add: no_test_cfg_def demo_cfg_def)
  have o: "outcome quiet no_test_cfg demo_world = Inr ()"
    by (rule quiet_completes [OF no_test_ok])
  have k: "keras_evaluate demo_world (test_set demo_cfg demo_world) 64 ! 0 = 1 / 2"
    "keras_evaluate demo_world (test_set demo_cfg demo_world) 64 ! 1 = 1 / 4"
    "BATCH_SIZE demo_cfg = 64"
    by (simp_all add: demo_world_def demo_cfg_def)
  have s: "snd (valid_test_split demo_world (snd (reduced demo_cfg demo_world))) =
      [(''img4.jpg'', PList [PStr ''a dog''])]"
    by (simp add: reduced_def loaded_train_def loaded_valid_def demo_defs)
  have kv: "keys [(''img4.jpg'', PList [PStr ''a dog''])] = [''img4.jpg'']"
    "vals [(''img4.jpg'', PList [PStr ''a dog''])] = [PList [PStr ''a dog'']]"
    by (simp_all add: keys_def vals_def)
  have m1: "mentions_test_metric
     (WandbLog [(''Test Loss'', PFloat (1 / 2)), (''Test Accuracy'', PFloat (1 / 4))])"
    by (simp add: test_metric_simps)
  have m2: "mentions_test_metric
     (Print [PFormat ''Test Loss = %.4f - Test Accuracy = %.4f'' [PFloat (1 / 2), PFloat (1 / 4)]])"
    by (simp add: test_metric_simps)
  note t1 = test_metrics_gated [of demo_world no_test_cfg quiet, OF demo_version]
  note t2 = test_metrics_gated [of demo_world demo_cfg quiet, OF demo_version]
  from t1 n have "\<forall>ev\<in>set (trace quiet no_test_cfg demo_world). \<not> mentions_test_metric ev"
    by (elim conjE) (erule mp)
  then have 1: "filter mentions_test_metric (trace quiet no_test_cfg demo_world) = []"
    by (simp only: filter_empty_conv) 
  from y demo_completes have ya: "TEST_SET demo_cfg \<and> outcome quiet demo_cfg demo_world = Inr ()"
    by (rule conjI)
  from t2 [THEN conjunct2] ya have 2:
     "2 \<le> length (keras_evaluate demo_world (test_set demo_cfg demo_world) (BATCH_SIZE demo_cfg)) \<and>
      MakeDataset (Dataset (keys (snd (valid_test_split demo_world (snd (reduced demo_cfg demo_world)))))
                     (vals (snd (valid_test_split demo_world (snd (reduced demo_cfg demo_world)))))
                     False (fitted_tokenizer demo_cfg demo_world))
        \<in> set (trace quiet demo_cfg demo_world) \<and>
      Evaluate (the_model demo_cfg demo_world) (test_set demo_cfg demo_world) (BATCH_SIZE demo_cfg)
        \<in> set (trace quiet demo_cfg demo_world) \<and>
      WandbLog [(''Test Loss'', PFloat (keras_evaluate demo_world (test_set demo_cfg demo_world)
                    (BATCH_SIZE demo_cfg) ! 0)),
                (''Test Accuracy'', PFloat (keras_evaluate demo_world (test_set demo_cfg demo_world)
                    (BATCH_SIZE demo_cfg) ! 1))]
        \<in> set (trace quiet demo_cfg demo_world) \<and>
      Print [PFormat ''Test Loss = %.4f - Test Accuracy = %.4f''
               [PFloat (keras_evaluate demo_world (test_set demo_cfg demo_world) (BATCH_SIZE demo_cfg) ! 0),
                PFloat (keras_evaluate demo_world (test_set demo_cfg demo_world) (BATCH_SIZE demo_cfg) ! 1)]]
        \<in> set (trace quiet demo_cfg demo_world)"
    by (rule mp)
  then have 2:
     "MakeDataset (Dataset [''img4.jpg''] [PList [PStr ''a dog'']] False
        (fitted_tokenizer demo_cfg demo_world)) \<in> set (trace quiet demo_cfg demo_world) \<and>
      Evaluate (the_model demo_cfg demo_world) (test_set demo_cfg demo_world) 64
        \<in> set (trace quiet demo_cfg demo_world) \<and>
      WandbLog [(''Test Loss'', PFloat (1 / 2)), (''Test Accuracy'', PFloat (1 / 4))]
        \<in> set (trace quiet demo_cfg demo_world) \<and>
      Print [PFormat ''Test Loss = %.4f - Test Accuracy = %.4f'' [PFloat (1 / 2), PFloat (1 / 4)]]
        \<in> set (trace quiet demo_cfg demo_world)"
    by (simp only: k s kv)
  from demo_version n o 1 y demo_completes 2 m1 m2 show ?thesis
    by (intro conjI) (elim conjE, assumption)+
qed


section \<open>The reported sample counts\<close>

lemma steps_log_no_count_report: "filter is_count_report (steps_log ss) = []"
  by (auto simp: filter_empty_conv is_count_report_def dest!: steps_log_log)

lemma count_reports_full_run:
  "count_reports (full_run cfg w) =
     count_lines (len (fst (reduced cfg w))) (len (snd (reduced cfg w)))"
  by (simp add: count_reports_def count_lines_def full_run_def phase_defs is_count_report_def
      steps_log_no_count_report)

lemma count_reports_prefix:
  "prefix (count_reports (trace flt cfg w))
     (count_lines (len (fst (reduced cfg w))) (len (snd (reduced cfg w))))"
  using filter_mono_prefix [OF trace_prefix [of flt cfg w], of is_count_report]
  by (simp only: count_reports_def [symmetric] count_reports_full_run)

lemma count_reports_complete:
  "outcome flt cfg w = Inr () \<Longrightarrow>
   count_reports (trace flt cfg w) =
     count_lines (len (fst (reduced cfg w))) (len (snd (reduced cfg w)))"
  by (simp add: trace_complete count_reports_full_run)

lemma prefix_nth: "prefix xs zs \<Longrightarrow> i < length xs \<Longrightarrow> xs ! i = zs ! i"
  by (auto simp: prefix_def nth_append)

text \<open>
  Claim C8. Two runs, with whatever faults, settings and surroundings, that have the
  same reduction flag and load the same training and validation mappings, and in which
  \<^verbatim>\<open>reduce_dataset_dim\<close> returns the same for these mappings when the flag is set: the
  reports of the two counts that each of them makes, two printed lines and one tracker
  call, are an initial part of the same three reports, so they agree wherever both runs
  report, and they are these three in a run that completes. The counts are the sizes of
  the loaded mappings when the flag is off, and the sizes of the mappings that
  \<^verbatim>\<open>reduce_dataset_dim\<close> returned for them when it is on.
\<close>

theorem sample_counts_deterministic:
  assumes "REDUCE_DATASET cfg = REDUCE_DATASET cfg'"
    and "loaded_train cfg w = loaded_train cfg' w'"
    and "loaded_valid cfg w = loaded_valid cfg' w'"
    and "REDUCE_DATASET cfg \<longrightarrow>
           same_reduction w w' (loaded_train cfg w) (loaded_valid cfg w)"
  shows
  "prefix (count_reports (trace flt cfg w))
     (count_lines (len (fst (reduced cfg w))) (len (snd (reduced cfg w)))) \<and>
   prefix (count_reports (trace flt' cfg' w'))
     (count_lines (len (fst (reduced cfg w))) (len (snd (reduced cfg w)))) \<and>
   (outcome flt cfg w = Inr () \<longrightarrow>
      count_reports (trace flt cfg w) =
        count_lines (len (fst (reduced cfg w))) (len (snd (reduced cfg w)))) \<and>
   (outcome flt' cfg' w' = Inr () \<longrightarrow>
      count_reports (trace flt' cfg' w') =
        count_lines (len (fst (reduced cfg w))) (len (snd (reduced cfg w)))) \<and>
   (\<forall>i. i < length (count_reports (trace flt cfg w)) \<and>
        i < length (count_reports (trace flt' cfg' w')) \<longrightarrow>
        count_reports (trace flt cfg w) ! i = count_reports (trace flt' cfg' w') ! i) \<and>
   (\<not> REDUCE_DATASET cfg \<longrightarrow>
      reduced cfg w = (loaded_train cfg w, loaded_valid cfg w)) \<and>
   (REDUCE_DATASET cfg \<longrightarrow>
      reduced cfg w = reduce_dataset_dim w (loaded_train cfg w) (loaded_valid cfg w))"
proof -
  have r: "reduced cfg' w' = reduced cfg w"
    using assms by (simp add: reduced_def same_reduction_def)
  have c1: "prefix (count_reports (trace flt cfg w))
      (count_lines (len (fst (reduced cfg w))) (len (snd (reduced cfg w))))"
    by (rule count_reports_prefix)
  have c2: "prefix (count_reports (trace flt' cfg' w'))
      (count_lines (len (fst (reduced cfg w))) (len (snd (reduced cfg w))))"
    using count_reports_prefix [of flt' cfg' w'] by (simp only: r)
  have c3: "outcome flt cfg w = Inr () \<longrightarrow>
      count_reports (trace flt cfg w) =
        count_lines (len (fst (reduced cfg w))) (len (snd (reduced cfg w)))"
    by (rule impI) (rule count_reports_complete)
  have c4: "outcome flt' cfg' w' = Inr () \<longrightarrow>
      count_reports (trace flt' cfg' w') =
        count_lines (len (fst (reduced cfg w))) (len (snd (reduced cfg w)))"
    using count_reports_complete [of flt' cfg' w'] by (simp only: r) (rule impI)
  have c5: "\<forall>i. i < length (count_reports (trace flt cfg w)) \<and>
        i < length (count_reports (trace flt' cfg' w')) \<longrightarrow>
        count_reports (trace flt cfg w) ! i = count_reports (trace flt' cfg' w') ! i"
  proof (intro allI impI)
    fix i
    assume i: "i < length (count_reports (trace flt cfg w)) \<and>
        i < length (count_reports (trace flt' cfg' w'))"
    from c1 i have "count_reports (trace flt cfg w) ! i =
        count_lines (len (fst (reduced cfg w))) (len (snd (reduced cfg w))) ! i"
      by (simp add: prefix_nth)
    moreover from c2 i have "count_reports (trace flt' cfg' w') ! i =
        count_lines (len (fst (reduced cfg w))) (len (snd (reduced cfg w))) ! i"
      by (simp add: prefix_nth)
    ultimately show "count_reports (trace flt cfg w) ! i = count_reports (trace flt' cfg' w') ! i"
      by simp
  qed
  have c6: "\<not> REDUCE_DATASET cfg \<longrightarrow>
      reduced cfg w = (loaded_train cfg w, loaded_valid cfg w)"
    by (simp add: reduced_def)
  have c7: "REDUCE_DATASET cfg \<longrightarrow>
      reduced cfg w = reduce_dataset_dim w (loaded_train cfg w) (loaded_valid cfg w)"
    by (simp add: reduced_def)
  show ?thesis by (intro conjI c1 c2 c3 c4 c5 c6 c7)
qed

text \<open>
  The small run with the reduction switched on, and a second run of it without a test
  set and under another version of the framework: the files hold two images each, the
  reduction keeps one of each, and both runs report 1 and 1.
\<close>

theorem sample_counts_deterministic_witness:
  "REDUCE_DATASET (demo_cfg\<lparr>REDUCE_DATASET := True\<rparr>) \<and>
   REDUCE_DATASET (no_test_cfg\<lparr>REDUCE_DATASET := True\<rparr>) \<and>
   len (loaded_train (demo_cfg\<lparr>REDUCE_DATASET := True\<rparr>) demo_world) = 2 \<and>
   len (loaded_valid (demo_cfg\<lparr>REDUCE_DATASET := True\<rparr>) demo_world) = 2 \<and>
   loaded_train (demo_cfg\<lparr>REDUCE_DATASET := True\<rparr>) demo_world =
     loaded_train (no_test_cfg\<lparr>REDUCE_DATASET := True\<rparr>) (demo_world\<lparr>tf_version := ''2.16.1''\<rparr>) \<and>
   loaded_valid (demo_cfg\<lparr>REDUCE_DATASET := True\<rparr>) demo_world =
     loaded_valid (no_test_cfg\<lparr>REDUCE_DATASET := True\<rparr>) (demo_world\<lparr>tf_version := ''2.16.1''\<rparr>) \<and>
   same_reduction demo_world (demo_world\<lparr>tf_version := ''2.16.1''\<rparr>)
     (loaded_train (demo_cfg\<lparr>REDUCE_DATASET := True\<rparr>) demo_world)
     (loaded_valid (demo_cfg\<lparr>REDUCE_DATASET := True\<rparr>) demo_world) \<and>
   outcome quiet (demo_cfg\<lparr>REDUCE_DATASET := True\<rparr>) demo_world = Inr () \<and>
   outcome quiet (no_test_cfg\<lparr>REDUCE_DATASET := True\<rparr>)
     (demo_world\<lparr>tf_version := ''2.16.1''\<rparr>) = Inr () \<and>
   count_reports (trace quiet (demo_cfg\<lparr>REDUCE_DATASET := True\<rparr>) demo_world) =
     count_lines 1 1 \<and>
   count_reports (trace quiet (no_test_cfg\<lparr>REDUCE_DATASET := True\<rparr>)
     (demo_world\<lparr>tf_version := ''2.16.1''\<rparr>)) = count_lines 1 1"
proof -
  let ?c = "demo_cfg\<lparr>REDUCE_DATASET := True\<rparr>"
  let ?c' = "no_test_cfg\<lparr>REDUCE_DATASET := True\<rparr>"
  let ?w' = "demo_world\<lparr>tf_version := ''2.16.1''\<rparr>"
  have f: "REDUCE_DATASET ?c" "REDUCE_DATASET ?c'"
    by simp_all
  have lt: "loaded_train ?c demo_world = loaded_train ?c' ?w'"
    and lv: "loaded_valid ?c demo_world = loaded_valid ?c' ?w'"
    by (simp_all add: loaded_train_def loaded_valid_def no_test_cfg_def demo_cfg_def
        demo_world_def)
  have n: "len (loaded_train ?c demo_world) = 2" "len (loaded_valid ?c demo_world) = 2"
    by (simp_all add: loaded_train_def loaded_valid_def demo_defs len_def)
  have rd: "same_reduction demo_world ?w' (loaded_train ?c demo_world) (loaded_valid ?c demo_world)"
    by (simp add: same_reduction_def demo_world_def)
  have ok: "run_ok ?c demo_world"
    by (simp add: run_ok_def the_steps_def demo_defs batch_payload_def epoch_payload_def
        py_getitem_def)
  have ok': "run_ok ?c' ?w'"
    by (simp add: run_ok_def the_steps_def no_test_cfg_def demo_defs batch_payload_def
        epoch_payload_def py_getitem_def)
  have o: "outcome quiet ?c demo_world = Inr ()"
    by (rule quiet_completes [OF ok])
  have o': "outcome quiet ?c' ?w' = Inr ()"
    by (rule quiet_completes [OF ok'])
  have r: "len (fst (reduced ?c demo_world)) = 1" "len (snd (reduced ?c demo_world)) = 1"
    by (simp_all add: reduced_def loaded_train_def loaded_valid_def demo_defs len_def)
  have e: "REDUCE_DATASET ?c = REDUCE_DATASET ?c'"
    by simp
  from rd have i: "REDUCE_DATASET ?c \<longrightarrow>
      same_reduction demo_world ?w' (loaded_train ?c demo_world) (loaded_valid ?c demo_world)"
    by (rule impI)
  note t = sample_counts_deterministic [of ?c ?c' demo_world ?w' quiet quiet, OF e lt lv i]
  from t o have 1: "count_reports (trace quiet ?c demo_world) =
      count_lines (len (fst (reduced ?c demo_world))) (len (snd (reduced ?c demo_world)))"
    by (elim conjE) (erule mp)
  from t [THEN conjunct2, THEN conjunct2, THEN conjunct2, THEN conjunct1] o'
  have 2: "count_reports (trace quiet ?c' ?w') =
      count_lines (len (fst (reduced ?c demo_world))) (len (snd (reduced ?c demo_world)))"
    by (rule mp)
  from f n lt lv rd o o' 1 2 show ?thesis
    by (simp only: r)
qed

end
